theory Spec2Isabelle
  imports Main "HOL-Library.Char_ord" "HOL-Library.List_Lexorder"
begin

section \<open>Tables\<close>

text \<open>
  The program is one class, \<open>FeatureExtracter\<close> (src/housing.py), whose methods work on
  pandas tables. A cell of a table is a missing value, a number, a string or a boolean.
  Numbers are integers here: a number in a \<open>float64\<close> column stands for the float of
  that value, and fractional floats are outside the model. A column carries its dtype,
  because \<open>select_dtypes\<close>, \<open>astype(str)\<close> and \<open>fillna\<close> depend on it. A table is its
  row-ids and its columns in order; column names are taken to be unique, as they are
  in a table read from a file.
\<close>

datatype cell = NaN | Num int | Str string | Bool bool

datatype dtype = Int64 | Float64 | Object | BoolT | Category | Datetime64

datatype series = Series (dtype: dtype) (cells: "cell list")

record 'i frame =
  index :: "'i list"
  columns :: "(string \<times> series) list"

text \<open>
  Every exception of the program is a value. \<open>NaNsPresent\<close> is the \<open>ValueError\<close> of
  \<open>_validate_no_nans\<close>, with the two lists its message prints; the others are the
  errors that pandas and Python raise inside the stages (\<open>ValueError\<close> carries the text
  that \<open>to_datetime\<close> could not convert).
\<close>

datatype 'i error =
    KeyError "string list"
  | TypeError
  | ValueError string
  | OutOfBoundsDatetime string
  | NaNsPresent "'i list" "string list"

subsection \<open>Python values\<close>

text \<open>Python's \<open>==\<close> on cells: \<open>True == 1\<close>, and a NaN equals nothing.\<close>

fun py_eq :: "cell \<Rightarrow> cell \<Rightarrow> bool" where
  "py_eq (Num a) (Num b) = (a = b)"
| "py_eq (Num a) (Bool b) = (a = (if b then 1 else 0))"
| "py_eq (Bool a) (Num b) = ((if a then 1 else 0) = b)"
| "py_eq (Bool a) (Bool b) = (a = b)"
| "py_eq (Str a) (Str b) = (a = b)"
| "py_eq _ _ = False"

fun is_str :: "cell \<Rightarrow> bool" where
  "is_str (Str _) = True"
| "is_str _ = False"

text \<open>\<open>str(n)\<close> for an integer.\<close>

definition digit_char :: "int \<Rightarrow> char" where
  "digit_char n = ''0123456789'' ! nat n"

function digits :: "int \<Rightarrow> string" where
  "digits n = (if n < 10 then [digit_char n] else digits (n div 10) @ [digit_char (n mod 10)])"
  by pat_completeness auto
termination
  by (relation "measure nat") auto

declare digits.simps [simp del]

definition str_int :: "int \<Rightarrow> string" where
  "str_int i = (if i < 0 then CHR ''-'' # digits (- i) else digits i)"

text \<open>
  \<open>Series.astype(str)\<close>, cell by cell: a number of a \<open>float64\<close> column prints with its
  fraction, a missing value prints as \<open>nan\<close>.
\<close>

fun str_cell :: "dtype \<Rightarrow> cell \<Rightarrow> string" where
  "str_cell d NaN = ''nan''"
| "str_cell d (Num n) = (if d = Float64 then str_int n @ ''.0'' else str_int n)"
| "str_cell d (Str s) = s"
| "str_cell d (Bool b) = (if b then ''True'' else ''False'')"

definition astype_str :: "series \<Rightarrow> string list" where
  "astype_str s = map (str_cell (dtype s)) (cells s)"

subsection \<open>Series operations\<close>

definition astype_category :: "series \<Rightarrow> series" where
  "astype_category s = Series Category (cells s)"

text \<open>
  The categories of a categorical column are the values it holds, missing values left
  out. \<open>v in categories\<close> depends on the kind of index that pandas infers for them: an
  index of booleans holds only booleans and an index of numbers only numbers (so \<open>0\<close> is
  not among the categories \<open>False, True\<close>, and \<open>True\<close> is not among \<open>0, 1\<close>); any other
  index is one of Python objects, and is searched by Python's \<open>==\<close>.
\<close>

fun is_bool :: "cell \<Rightarrow> bool" where
  "is_bool (Bool _) = True"
| "is_bool _ = False"

fun is_num :: "cell \<Rightarrow> bool" where
  "is_num (Num _) = True"
| "is_num _ = False"

definition categories :: "cell list \<Rightarrow> cell list" where
  "categories vs = filter (\<lambda>c. c \<noteq> NaN) vs"

definition in_categories :: "cell \<Rightarrow> cell list \<Rightarrow> bool" where
  "in_categories v vs =
     (if categories vs \<noteq> [] \<and> list_all is_bool (categories vs) then is_bool v \<and> v \<in> set vs
      else if categories vs \<noteq> [] \<and> list_all is_num (categories vs) then is_num v \<and> v \<in> set vs
      else list_ex (\<lambda>c. py_eq c v) (categories vs))"

text \<open>
  \<open>s == v\<close> and \<open>s != v\<close> against a scalar: a boolean column, compared value by value.
  A categorical column compared with a scalar that is not one of its categories is
  unequal to it in every row.
\<close>

definition eq_scalar :: "series \<Rightarrow> cell \<Rightarrow> series" where
  "eq_scalar s v =
     Series BoolT (map (\<lambda>c. Bool (if dtype s = Category \<and> \<not> in_categories v (cells s) then False
                                   else py_eq c v)) (cells s))"

definition ne_scalar :: "series \<Rightarrow> cell \<Rightarrow> series" where
  "ne_scalar s v =
     Series BoolT (map (\<lambda>c. Bool (if dtype s = Category \<and> \<not> in_categories v (cells s) then True
                                   else \<not> py_eq c v)) (cells s))"

text \<open>
  \<open>fillna(v)\<close> on one column. A categorical column accepts only a fill value that is
  one of its categories, and raises otherwise. A \<open>float64\<close> column that receives a string
  becomes an \<open>object\<close> column. An \<open>object\<close> column comes back with the dtype that pandas
  (2.x) infers from its values: integers give \<open>int64\<close>, booleans give \<open>bool\<close>, anything
  else stays \<open>object\<close>. (A number held by an \<open>object\<close> column is a Python integer.)
\<close>

definition infer_dtype :: "cell list \<Rightarrow> dtype" where
  "infer_dtype vs =
     (if vs \<noteq> [] \<and> list_all is_num vs then Int64
      else if vs \<noteq> [] \<and> list_all is_bool vs then BoolT
      else if vs \<noteq> [] \<and> list_all (\<lambda>c. is_num c \<or> c = NaN) vs then Float64
      else Object)"

definition fill_value :: "cell \<Rightarrow> series \<Rightarrow> series" where
  "fill_value v s =
     Series
       (if dtype s = Object then infer_dtype (map (\<lambda>c. if c = NaN then v else c) (cells s))
        else if dtype s = Float64 \<and> is_str v \<and> NaN \<in> set (cells s) then Object
        else dtype s)
       (map (\<lambda>c. if c = NaN then v else c) (cells s))"

definition fillna_series :: "cell \<Rightarrow> series \<Rightarrow> 'i error + series" where
  "fillna_series v s =
     (if dtype s = Category \<and> \<not> in_categories v (cells s) then Inl TypeError
      else Inr (fill_value v s))"

subsection \<open>Table operations\<close>

text \<open>\<open>X[col]\<close>: the column, or \<open>KeyError\<close>.\<close>

definition df_getitem :: "'i frame \<Rightarrow> string \<Rightarrow> 'i error + series" where
  "df_getitem f c = (case map_of (columns f) c of None \<Rightarrow> Inl (KeyError [c]) | Some s \<Rightarrow> Inr s)"

text \<open>\<open>X[col] = s\<close>: an existing column is replaced where it stands, a new one is appended.\<close>

fun set_col :: "(string \<times> series) list \<Rightarrow> string \<Rightarrow> series \<Rightarrow> (string \<times> series) list" where
  "set_col [] c s = [(c, s)]"
| "set_col ((k, v) # kvs) c s = (if k = c then (c, s) # kvs else (k, v) # set_col kvs c s)"

definition df_setitem :: "'i frame \<Rightarrow> string \<Rightarrow> series \<Rightarrow> 'i frame" where
  "df_setitem f c s = f\<lparr>columns := set_col (columns f) c s\<rparr>"

text \<open>\<open>X[cols]\<close> for a list of names: the sub-table in the list's order, or \<open>KeyError\<close>.\<close>

definition missing_cols :: "'i frame \<Rightarrow> string list \<Rightarrow> string list" where
  "missing_cols f cs = filter (\<lambda>c. map_of (columns f) c = None) cs"

fun pick_cols :: "(string \<times> series) list \<Rightarrow> string list \<Rightarrow> (string \<times> series) list" where
  "pick_cols kvs [] = []"
| "pick_cols kvs (c # cs) =
     (case map_of kvs c of None \<Rightarrow> pick_cols kvs cs | Some s \<Rightarrow> (c, s) # pick_cols kvs cs)"

definition df_getitem_list :: "'i frame \<Rightarrow> string list \<Rightarrow> 'i error + 'i frame" where
  "df_getitem_list f cs =
     (if missing_cols f cs = [] then Inr (f\<lparr>columns := pick_cols (columns f) cs\<rparr>)
      else Inl (KeyError (missing_cols f cs)))"

text \<open>\<open>df.fillna(v)\<close>: every column filled; the first column that refuses raises.\<close>

fun fillna_cols :: "cell \<Rightarrow> (string \<times> series) list \<Rightarrow> 'i error + (string \<times> series) list" where
  "fillna_cols v [] = Inr []"
| "fillna_cols v ((k, s) # kvs) =
     (case fillna_series v s of
        Inl e \<Rightarrow> Inl e
      | Inr s' \<Rightarrow> (case fillna_cols v kvs of Inl e \<Rightarrow> Inl e | Inr kvs' \<Rightarrow> Inr ((k, s') # kvs')))"

definition df_fillna :: "cell \<Rightarrow> 'i frame \<Rightarrow> 'i error + 'i frame" where
  "df_fillna v f =
     (case fillna_cols v (columns f) of Inl e \<Rightarrow> Inl e | Inr kvs \<Rightarrow> Inr (f\<lparr>columns := kvs\<rparr>))"

text \<open>\<open>X[cols] = df\<close>: the columns of \<open>df\<close> are stored under the names of \<open>cols\<close>, pairwise.\<close>

fun set_cols :: "(string \<times> series) list \<Rightarrow> string list \<Rightarrow> (string \<times> series) list
    \<Rightarrow> (string \<times> series) list" where
  "set_cols kvs (c # cs) ((k, s) # rest) = set_cols (set_col kvs c s) cs rest"
| "set_cols kvs _ _ = kvs"

definition df_setitem_list :: "'i frame \<Rightarrow> string list \<Rightarrow> 'i frame \<Rightarrow> 'i frame" where
  "df_setitem_list f cs g = f\<lparr>columns := set_cols (columns f) cs (columns g)\<rparr>"

text \<open>\<open>X.drop(columns=cols)\<close>: a new table without them, or \<open>KeyError\<close> when one is absent.\<close>

definition without :: "'i frame \<Rightarrow> string list \<Rightarrow> 'i frame" where
  "without f cs = f\<lparr>columns := filter (\<lambda>kv. fst kv \<notin> set cs) (columns f)\<rparr>"

definition df_drop :: "'i frame \<Rightarrow> string list \<Rightarrow> 'i error + 'i frame" where
  "df_drop f cs =
     (if missing_cols f cs = [] then Inr (without f cs) else Inl (KeyError (missing_cols f cs)))"

text \<open>\<open>X.isna()\<close> and its reductions.\<close>

definition na_cols :: "'i frame \<Rightarrow> string list" where
  "na_cols f = map fst (filter (\<lambda>kv. NaN \<in> set (cells (snd kv))) (columns f))"

definition row_has_na :: "'i frame \<Rightarrow> nat \<Rightarrow> bool" where
  "row_has_na f k = list_ex (\<lambda>kv. k < length (cells (snd kv)) \<and> cells (snd kv) ! k = NaN) (columns f)"

definition na_rows :: "'i frame \<Rightarrow> 'i list" where
  "na_rows f = map fst (filter (\<lambda>ik. row_has_na f (snd ik)) (zip (index f) [0 ..< length (index f)]))"

definition any_na :: "'i frame \<Rightarrow> bool" where
  "any_na f = list_ex (\<lambda>kv. NaN \<in> set (cells (snd kv))) (columns f)"

text \<open>\<open>select_dtypes\<close>: the integer and float dtypes are the numbers.\<close>

definition is_number :: "dtype \<Rightarrow> bool" where
  "is_number d = (d = Int64 \<or> d = Float64)"

definition select_dtypes_include_number :: "'i frame \<Rightarrow> string list" where
  "select_dtypes_include_number f = map fst (filter (\<lambda>kv. is_number (dtype (snd kv))) (columns f))"

definition select_dtypes_exclude_number :: "'i frame \<Rightarrow> string list" where
  "select_dtypes_exclude_number f = map fst (filter (\<lambda>kv. \<not> is_number (dtype (snd kv))) (columns f))"


text \<open>
  \<open>Series.unique()\<close>: the values in order of first appearance. Two values are the same
  entry when they are equal in Python, or are both missing.
\<close>

definition same_value :: "cell \<Rightarrow> cell \<Rightarrow> bool" where
  "same_value a b = ((a = NaN \<and> b = NaN) \<or> py_eq a b)"

fun py_unique :: "cell list \<Rightarrow> cell list" where
  "py_unique [] = []"
| "py_unique (v # vs) = v # py_unique (filter (\<lambda>u. \<not> same_value v u) vs)"

text \<open>
  \<open>sorted(list)\<close>: strings sort by code point, numbers and booleans by value
  (\<open>False < True\<close>, as 0 and 1), and a list that mixes strings with anything else raises
  \<open>TypeError\<close>. A NaN among numbers is placed as 0 here; lemma \<open>transform_no_nan\<close>
  below shows that \<open>fit_transform\<close> never sorts one.
\<close>

fun num_key :: "cell \<Rightarrow> int" where
  "num_key (Num n) = n"
| "num_key (Bool b) = (if b then 1 else 0)"
| "num_key _ = 0"

fun str_key :: "cell \<Rightarrow> string" where
  "str_key (Str s) = s"
| "str_key _ = []"

definition py_sorted :: "cell list \<Rightarrow> 'i error + cell list" where
  "py_sorted vs =
     (if list_all is_str vs then Inr (sort_key str_key vs)
      else if list_all (\<lambda>v. \<not> is_str v) vs then Inr (sort_key num_key vs)
      else Inl TypeError)"

text \<open>Python's \<open><\<close> on two cells that can be compared.\<close>

fun py_lt :: "cell \<Rightarrow> cell \<Rightarrow> bool" where
  "py_lt (Str a) (Str b) = (a < b)"
| "py_lt (Str a) _ = False"
| "py_lt _ (Str b) = False"
| "py_lt a b = (num_key a < num_key b)"

subsection \<open>Dates\<close>

text \<open>
  \<open>pd.to_datetime(s, format="%m/%Y")\<close>. pandas matches the text against the pattern
  \<open>(1[0-2]|0[1-9]|[1-9])/(\d\d\d\d)\<close> and refuses text that is left over; there is no
  year 0, and the date must then fit a nanosecond timestamp, which runs from 1677-09-21
  to 2262-04-11.
\<close>

datatype timestamp = Timestamp (year: int) (month: int)

definition digit_val :: "char \<Rightarrow> int option" where
  "digit_val c = map_of
     [(CHR ''0'', 0), (CHR ''1'', 1), (CHR ''2'', 2), (CHR ''3'', 3), (CHR ''4'', 4),
      (CHR ''5'', 5), (CHR ''6'', 6), (CHR ''7'', 7), (CHR ''8'', 8), (CHR ''9'', 9)] c"

definition parse_month :: "string \<Rightarrow> (int \<times> string) option" where
  "parse_month s =
     (case s of
        c1 # c2 # c3 # rest \<Rightarrow>
          (if c2 = CHR ''/'' then
             (case digit_val c1 of
                Some d \<Rightarrow> if 1 \<le> d then Some (d, c3 # rest) else None
              | None \<Rightarrow> None)
           else if c3 = CHR ''/'' then
             (case (digit_val c1, digit_val c2) of
                (Some d1, Some d2) \<Rightarrow>
                  if (d1 = 1 \<and> d2 \<le> 2) \<or> (d1 = 0 \<and> 1 \<le> d2) then Some (10 * d1 + d2, rest)
                  else None
              | _ \<Rightarrow> None)
           else None)
      | _ \<Rightarrow> None)"

definition parse_year :: "string \<Rightarrow> int option" where
  "parse_year s =
     (case s of
        [a, b, c, d] \<Rightarrow>
          (case (digit_val a, digit_val b, digit_val c, digit_val d) of
             (Some x, Some y, Some z, Some u) \<Rightarrow> Some (1000 * x + 100 * y + 10 * z + u)
           | _ \<Rightarrow> None)
      | _ \<Rightarrow> None)"

definition to_datetime :: "string \<Rightarrow> 'i error + timestamp" where
  "to_datetime s =
     (case parse_month s of
        None \<Rightarrow> Inl (ValueError s)
      | Some (m, rest) \<Rightarrow>
          (case parse_year rest of
             None \<Rightarrow> Inl (ValueError s)
           | Some y \<Rightarrow>
               if y = 0 then Inl (ValueError s)
               else if 1677 * 12 + 10 \<le> y * 12 + m \<and> y * 12 + m \<le> 2262 * 12 + 4
               then Inr (Timestamp y m)
               else Inl (OutOfBoundsDatetime s)))"

text \<open>A column of texts converted in row order: the first text that fails raises.\<close>

fun to_datetime_list :: "string list \<Rightarrow> 'i error + timestamp list" where
  "to_datetime_list [] = Inr []"
| "to_datetime_list (s # ss) =
     (case to_datetime s of
        Inl e \<Rightarrow> Inl e
      | Inr t \<Rightarrow> (case to_datetime_list ss of Inl e \<Rightarrow> Inl e | Inr ts \<Rightarrow> Inr (t # ts)))"

text \<open>
  \<open>Series.apply(f)\<close> of a function with integer results: an \<open>int64\<close> column; on an empty
  column pandas does not call \<open>f\<close> and returns an empty column of the old dtype.
\<close>

definition apply_int :: "(timestamp \<Rightarrow> int) \<Rightarrow> timestamp list \<Rightarrow> series" where
  "apply_int g ts = (if ts = [] then Series Datetime64 [] else Series Int64 (map (\<lambda>t. Num (g t)) ts))"

section \<open>Objects and mutation\<close>

text \<open>
  Tables are objects: \<open>X[col] = s\<close> changes the table that \<open>X\<close> refers to, while
  \<open>X.copy()\<close> and \<open>X.drop(...)\<close> make a new table. The heap holds the tables; an
  address is a position in it, and a new table goes to the end. The three fields of the
  one \<open>FeatureExtracter\<close> instance (\<open>self._num_cols\<close>, \<open>self._cat_cols\<close>,
  \<open>self._all_categories\<close>) are part of the same state. A method is a function from
  the state to its result, or the exception it raised, and the state it leaves.
\<close>

type_synonym addr = nat

record 'i world =
  heap :: "'i frame list"
  num_cols :: "string list"
  cat_cols :: "string list"
  all_categories :: "cell list list"

type_synonym ('i, 'a) py = "'i world \<Rightarrow> ('i error + 'a) \<times> 'i world"

definition ret :: "'a \<Rightarrow> ('i, 'a) py" where
  "ret x w = (Inr x, w)"

definition raise :: "'i error \<Rightarrow> ('i, 'a) py" where
  "raise e w = (Inl e, w)"

definition lift :: "'i error + 'a \<Rightarrow> ('i, 'a) py" where
  "lift r w = (r, w)"

definition bind :: "('i, 'a) py \<Rightarrow> ('a \<Rightarrow> ('i, 'b) py) \<Rightarrow> ('i, 'b) py" where
  "bind m k w = (case m w of (Inl e, w') \<Rightarrow> (Inl e, w') | (Inr x, w') \<Rightarrow> k x w')"

fun foreach :: "'a list \<Rightarrow> ('a \<Rightarrow> ('i, unit) py) \<Rightarrow> ('i, unit) py" where
  "foreach [] body = ret ()"
| "foreach (x # xs) body = bind (body x) (\<lambda>_. foreach xs body)"

fun collect :: "'a list \<Rightarrow> ('a \<Rightarrow> ('i, 'b) py) \<Rightarrow> ('i, 'b list) py" where
  "collect [] body = ret []"
| "collect (x # xs) body = bind (body x) (\<lambda>y. bind (collect xs body) (\<lambda>ys. ret (y # ys)))"

definition load :: "addr \<Rightarrow> ('i, 'i frame) py" where
  "load X w = (Inr (heap w ! X), w)"

definition store :: "addr \<Rightarrow> 'i frame \<Rightarrow> ('i, unit) py" where
  "store X f w = (Inr (), w\<lparr>heap := (heap w)[X := f]\<rparr>)"

definition alloc :: "'i frame \<Rightarrow> ('i, addr) py" where
  "alloc f w = (Inr (length (heap w)), w\<lparr>heap := heap w @ [f]\<rparr>)"

definition pd_copy :: "addr \<Rightarrow> ('i, addr) py" where
  "pd_copy X = bind (load X) alloc"

definition pd_getitem :: "addr \<Rightarrow> string \<Rightarrow> ('i, series) py" where
  "pd_getitem X c = bind (load X) (\<lambda>f. lift (df_getitem f c))"

definition pd_setitem :: "addr \<Rightarrow> string \<Rightarrow> series \<Rightarrow> ('i, unit) py" where
  "pd_setitem X c s = bind (load X) (\<lambda>f. store X (df_setitem f c s))"

definition pd_getitem_list :: "addr \<Rightarrow> string list \<Rightarrow> ('i, 'i frame) py" where
  "pd_getitem_list X cs = bind (load X) (\<lambda>f. lift (df_getitem_list f cs))"

definition pd_setitem_list :: "addr \<Rightarrow> string list \<Rightarrow> 'i frame \<Rightarrow> ('i, unit) py" where
  "pd_setitem_list X cs g = bind (load X) (\<lambda>f. store X (df_setitem_list f cs g))"

definition pd_drop :: "addr \<Rightarrow> string list \<Rightarrow> ('i, addr) py" where
  "pd_drop X cs = bind (load X) (\<lambda>f. bind (lift (df_drop f cs)) alloc)"

section \<open>The feature extracter\<close>

subsection \<open>Configuration\<close>

definition cols_cast_category :: "string list" where
  "cols_cast_category = [''MSSubClass'']"

definition cols_fillna_None_str :: "string list" where
  "cols_fillna_None_str =
     [''PoolQC'', ''MiscFeature'', ''Alley'', ''Fence'', ''FireplaceQu'', ''GarageType'',
      ''GarageFinish'', ''GarageQual'', ''GarageCond'', ''BsmtExposure'', ''BsmtFinType2'',
      ''BsmtFinType1'', ''BsmtCond'', ''BsmtQual'', ''MasVnrType'', ''Electrical'',
      ''MSZoning'', ''Exterior1st'', ''Exterior2nd'', ''KitchenQual'', ''Functional'',
      ''SaleType'']"

definition cols_fillna_0 :: "string list" where
  "cols_fillna_0 =
     [''LotFrontage'', ''MasVnrArea'', ''BsmtFinSF1'', ''BsmtFinSF2'', ''BsmtUnfSF'',
      ''TotalBsmtSF'', ''BsmtFullBath'', ''BsmtHalfBath'', ''GarageCars'']"

definition cols_drop :: "string list" where
  "cols_drop =
     [''1stFlrSF'', ''GarageArea'', ''GarageYrBlt'', ''TotRmsAbvGrd'', ''Street'', ''Utilities'']"

definition binarize_features_by_true_value :: "(string \<times> string) list" where
  "binarize_features_by_true_value =
     [(''Condition2'', ''Norm''), (''RoofMatl'', ''CompShg''), (''Heating'', ''GasA'')]"

definition binarize_features_by_false_value :: "(string \<times> int) list" where
  "binarize_features_by_false_value =
     [(''LowQualFinSF'', 0), (''3SsnPorch'', 0), (''PoolArea'', 0), (''MiscVal'', 0)]"

subsection \<open>The stages\<close>

definition cast_types :: "addr \<Rightarrow> ('i, addr) py" where
  "cast_types X =
     bind (foreach cols_cast_category
            (\<lambda>col. bind (pd_getitem X col) (\<lambda>s. pd_setitem X col (astype_category s))))
       (\<lambda>_. ret X)"

definition fillna :: "addr \<Rightarrow> ('i, addr) py" where
  "fillna X =
     bind (pd_getitem_list X cols_fillna_None_str) (\<lambda>g.
     bind (lift (df_fillna (Str ''None'') g)) (\<lambda>g'.
     bind (pd_setitem_list X cols_fillna_None_str g') (\<lambda>_.
     bind (pd_getitem_list X cols_fillna_0) (\<lambda>h.
     bind (lift (df_fillna (Num 0) h)) (\<lambda>h'.
     bind (pd_setitem_list X cols_fillna_0 h') (\<lambda>_.
     ret X))))))"

definition drop_columns :: "addr \<Rightarrow> ('i, addr) py" where
  "drop_columns X = pd_drop X cols_drop"

definition binarize_features :: "addr \<Rightarrow> ('i, addr) py" where
  "binarize_features X =
     bind (foreach binarize_features_by_true_value
            (\<lambda>(col, true_val).
               bind (pd_getitem X col) (\<lambda>s.
               pd_setitem X (col @ ''_is_'' @ true_val) (eq_scalar s (Str true_val))))) (\<lambda>_.
     bind (foreach binarize_features_by_false_value
            (\<lambda>(col, false_val).
               bind (pd_getitem X col) (\<lambda>s.
               pd_setitem X (col @ ''_not_'' @ str_int false_val) (ne_scalar s (Num false_val))))) (\<lambda>_.
     pd_drop X (map fst binarize_features_by_true_value @ map fst binarize_features_by_false_value)))"

definition get_months_after_start_year :: "int \<Rightarrow> timestamp \<Rightarrow> int" where
  "get_months_after_start_year start_year dt = (year dt - start_year) * 12 + month dt"

definition transform_date_sold :: "addr \<Rightarrow> ('i, addr) py" where
  "transform_date_sold X =
     bind (pd_getitem X ''MoSold'') (\<lambda>mo.
     bind (pd_getitem X ''YrSold'') (\<lambda>yr.
     bind (lift (to_datetime_list (map2 (\<lambda>a b. a @ ''/'' @ b) (astype_str mo) (astype_str yr)))) (\<lambda>date_sold.
     bind (pd_setitem X ''MonthNumSold'' (apply_int (get_months_after_start_year 2000) date_sold)) (\<lambda>_.
     pd_drop X [''MoSold'', ''YrSold'']))))"

definition validate_no_nans :: "addr \<Rightarrow> ('i, unit) py" where
  "validate_no_nans X =
     bind (load X) (\<lambda>f. if any_na f then raise (NaNsPresent (na_rows f) (na_cols f)) else ret ())"

subsection \<open>The two entry points\<close>

definition transform :: "addr \<Rightarrow> ('i, addr) py" where
  "transform X0 =
     bind (pd_copy X0) (\<lambda>X1.
     bind (cast_types X1) (\<lambda>X2.
     bind (fillna X2) (\<lambda>X3.
     bind (drop_columns X3) (\<lambda>X4.
     bind (transform_date_sold X4) (\<lambda>X5.
     bind (binarize_features X5) (\<lambda>X6.
     bind (validate_no_nans X6) (\<lambda>_.
     ret X6)))))))"

definition fit_transform :: "addr \<Rightarrow> ('i, addr) py" where
  "fit_transform X0 =
     bind (transform X0) (\<lambda>X.
     bind (load X) (\<lambda>f.
     bind (\<lambda>w. (Inr (), w\<lparr>num_cols := select_dtypes_include_number f\<rparr>)) (\<lambda>_.
     bind (\<lambda>w. (Inr (), w\<lparr>cat_cols := select_dtypes_exclude_number f\<rparr>)) (\<lambda>_.
     bind (\<lambda>w. (Inr (cat_cols w), w)) (\<lambda>cs.
     bind (collect cs (\<lambda>col. bind (pd_getitem X col) (\<lambda>s. lift (py_sorted (py_unique (cells s)))))) (\<lambda>cats.
     bind (\<lambda>w. (Inr (), w\<lparr>all_categories := cats\<rparr>)) (\<lambda>_.
     ret X)))))))"

definition get_numeric_feature_names :: "'i world \<Rightarrow> string list" where
  "get_numeric_feature_names w = num_cols w"

definition get_categorical_feature_names :: "'i world \<Rightarrow> string list" where
  "get_categorical_feature_names w = cat_cols w"

definition get_category_lists :: "'i world \<Rightarrow> cell list list" where
  "get_category_lists w = all_categories w"

section \<open>Notions used in the proofs\<close>

text \<open>
  \<open>preserves n w w'\<close>: going from \<open>w\<close> to \<open>w'\<close>, the tables at the addresses below \<open>n\<close>
  and the three fields of the instance are unchanged, and no table has disappeared.
\<close>

definition preserves :: "nat \<Rightarrow> 'i world \<Rightarrow> 'i world \<Rightarrow> bool" where
  "preserves n w w' \<longleftrightarrow>
     length (heap w) \<le> length (heap w') \<and> take n (heap w') = take n (heap w) \<and>
     num_cols w' = num_cols w \<and> cat_cols w' = cat_cols w \<and> all_categories w' = all_categories w"

text \<open>The table after the seven assignments of \<open>_binarize_features\<close>, before its \<open>drop\<close>.\<close>

definition binarized :: "'i frame \<Rightarrow> series \<Rightarrow> series \<Rightarrow> series \<Rightarrow> series \<Rightarrow> series \<Rightarrow> series \<Rightarrow> series \<Rightarrow> 'i frame" where
  "binarized f s1 s2 s3 s4 s5 s6 s7 =
     df_setitem (df_setitem (df_setitem (df_setitem (df_setitem (df_setitem (df_setitem f
       ''Condition2_is_Norm'' (eq_scalar s1 (Str ''Norm'')))
       ''RoofMatl_is_CompShg'' (eq_scalar s2 (Str ''CompShg'')))
       ''Heating_is_GasA'' (eq_scalar s3 (Str ''GasA'')))
       ''LowQualFinSF_not_0'' (ne_scalar s4 (Num 0)))
       ''3SsnPorch_not_0'' (ne_scalar s5 (Num 0)))
       ''PoolArea_not_0'' (ne_scalar s6 (Num 0)))
       ''MiscVal_not_0'' (ne_scalar s7 (Num 0))"


text \<open>
  \<open>reported w' r\<close>: when the result \<open>r\<close> is the \<open>ValueError\<close> of \<open>_validate_no_nans\<close>, the
  table examined is the last one made, it has a missing cell, and the two lists of the
  message are its rows and its columns with a missing cell.
\<close>

definition reported :: "'i world \<Rightarrow> 'i error + 'a \<Rightarrow> bool" where
  "reported w' r \<longleftrightarrow>
     (\<forall>i c. r = Inl (NaNsPresent i c) \<longrightarrow>
        heap w' \<noteq> [] \<and> any_na (last (heap w')) \<and>
        i = na_rows (last (heap w')) \<and> c = na_cols (last (heap w')))"


text \<open>The columns after \<open>X[cs] = X[cs].fillna(v)\<close>, as a map from names to columns.\<close>

definition fill_map :: "cell \<Rightarrow> string list \<Rightarrow> (string \<rightharpoonup> series) \<Rightarrow> (string \<rightharpoonup> series)" where
  "fill_map v cs m = (\<lambda>c. if c \<in> set cs then map_option (fill_value v) (m c) else m c)"

text \<open>
  The columns that the configuration names, and the columns that the stages create:
  \<open>MonthNumSold\<close> and one boolean column for every binarization rule.
\<close>

definition named_columns :: "string list" where
  "named_columns =
     cols_cast_category @ cols_fillna_None_str @ cols_fillna_0 @ cols_drop @
     [''MoSold'', ''YrSold''] @
     map fst binarize_features_by_true_value @ map fst binarize_features_by_false_value"

definition created_columns :: "string list" where
  "created_columns =
     [''MonthNumSold''] @
     map (\<lambda>(col, true_val). col @ ''_is_'' @ true_val) binarize_features_by_true_value @
     map (\<lambda>(col, false_val). col @ ''_not_'' @ str_int false_val) binarize_features_by_false_value"

text \<open>The columns that \<open>_binarize_features\<close> reads and then drops.\<close>

definition binarize_sources :: "string list" where
  "binarize_sources = map fst binarize_features_by_true_value @ map fst binarize_features_by_false_value"

subsection \<open>Example tables\<close>



text \<open>
  A training table of two sales and a held-out table of one sale, with every column
  that the stages name and one more, \<open>Neighborhood\<close>, that no stage names. The training
  sales are in the neighbourhoods \<open>A\<close> and \<open>B\<close>, the held-out sale in \<open>C\<close>.
\<close>

definition train_table :: "int frame" where
  "train_table = \<lparr>index = [1, 2], columns =
     [(''MSSubClass'', Series Int64 [Num 60, Num 20]),
      (''Neighborhood'', Series Object [Str ''B'', Str ''A'']),
      (''PoolQC'', Series Object [NaN, Str ''Gd'']),
      (''MiscFeature'', Series Object [NaN, Str ''Shed'']),
      (''Alley'', Series Object [NaN, Str ''Pave'']),
      (''Fence'', Series Object [NaN, Str ''MnPrv'']),
      (''FireplaceQu'', Series Object [NaN, Str ''TA'']),
      (''GarageType'', Series Object [Str ''Attchd'', NaN]),
      (''GarageFinish'', Series Object [Str ''RFn'', NaN]),
      (''GarageQual'', Series Object [Str ''TA'', NaN]),
      (''GarageCond'', Series Object [Str ''TA'', NaN]),
      (''BsmtExposure'', Series Object [Str ''No'', Str ''Gd'']),
      (''BsmtFinType2'', Series Object [Str ''Unf'', Str ''Unf'']),
      (''BsmtFinType1'', Series Object [Str ''GLQ'', Str ''ALQ'']),
      (''BsmtCond'', Series Object [Str ''TA'', Str ''TA'']),
      (''BsmtQual'', Series Object [Str ''Gd'', Str ''Gd'']),
      (''MasVnrType'', Series Object [Str ''BrkFace'', NaN]),
      (''Electrical'', Series Object [Str ''SBrkr'', Str ''SBrkr'']),
      (''MSZoning'', Series Object [Str ''RL'', Str ''RL'']),
      (''Exterior1st'', Series Object [Str ''VinylSd'', Str ''MetalSd'']),
      (''Exterior2nd'', Series Object [Str ''VinylSd'', Str ''MetalSd'']),
      (''KitchenQual'', Series Object [Str ''Gd'', Str ''TA'']),
      (''Functional'', Series Object [Str ''Typ'', Str ''Typ'']),
      (''SaleType'', Series Object [Str ''WD'', Str ''WD'']),
      (''LotFrontage'', Series Float64 [Num 65, NaN]),
      (''MasVnrArea'', Series Float64 [Num 196, NaN]),
      (''BsmtFinSF1'', Series Int64 [Num 706, Num 978]),
      (''BsmtFinSF2'', Series Int64 [Num 0, Num 0]),
      (''BsmtUnfSF'', Series Int64 [Num 150, Num 284]),
      (''TotalBsmtSF'', Series Int64 [Num 856, Num 1262]),
      (''BsmtFullBath'', Series Int64 [Num 1, Num 0]),
      (''BsmtHalfBath'', Series Int64 [Num 0, Num 1]),
      (''GarageCars'', Series Int64 [Num 2, Num 0]),
      (''1stFlrSF'', Series Int64 [Num 856, Num 1262]),
      (''GarageArea'', Series Int64 [Num 548, Num 0]),
      (''GarageYrBlt'', Series Float64 [Num 2003, NaN]),
      (''TotRmsAbvGrd'', Series Int64 [Num 8, Num 6]),
      (''Street'', Series Object [Str ''Pave'', Str ''Pave'']),
      (''Utilities'', Series Object [Str ''AllPub'', Str ''AllPub'']),
      (''MoSold'', Series Int64 [Num 2, Num 12]),
      (''YrSold'', Series Int64 [Num 2008, Num 2007]),
      (''Condition2'', Series Object [Str ''Norm'', Str ''Feedr'']),
      (''RoofMatl'', Series Object [Str ''CompShg'', Str ''CompShg'']),
      (''Heating'', Series Object [Str ''GasA'', Str ''GasW'']),
      (''LowQualFinSF'', Series Int64 [Num 0, Num 0]),
      (''3SsnPorch'', Series Int64 [Num 0, Num 0]),
      (''PoolArea'', Series Int64 [Num 0, Num 150]),
      (''MiscVal'', Series Int64 [Num 0, Num 700])]\<rparr>"

definition heldout_table :: "int frame" where
  "heldout_table = \<lparr>index = [3], columns =
     [(''MSSubClass'', Series Int64 [Num 60]),
      (''Neighborhood'', Series Object [Str ''C'']),
      (''PoolQC'', Series Float64 [NaN]),
      (''MiscFeature'', Series Float64 [NaN]),
      (''Alley'', Series Float64 [NaN]),
      (''Fence'', Series Float64 [NaN]),
      (''FireplaceQu'', Series Object [Str ''TA'']),
      (''GarageType'', Series Object [Str ''Attchd'']),
      (''GarageFinish'', Series Object [Str ''RFn'']),
      (''GarageQual'', Series Object [Str ''TA'']),
      (''GarageCond'', Series Object [Str ''TA'']),
      (''BsmtExposure'', Series Object [Str ''No'']),
      (''BsmtFinType2'', Series Object [Str ''Unf'']),
      (''BsmtFinType1'', Series Object [Str ''GLQ'']),
      (''BsmtCond'', Series Object [Str ''TA'']),
      (''BsmtQual'', Series Object [Str ''Gd'']),
      (''MasVnrType'', Series Object [Str ''BrkFace'']),
      (''Electrical'', Series Object [Str ''SBrkr'']),
      (''MSZoning'', Series Object [Str ''RL'']),
      (''Exterior1st'', Series Object [Str ''VinylSd'']),
      (''Exterior2nd'', Series Object [Str ''VinylSd'']),
      (''KitchenQual'', Series Object [Str ''Gd'']),
      (''Functional'', Series Object [Str ''Typ'']),
      (''SaleType'', Series Object [Str ''WD'']),
      (''LotFrontage'', Series Float64 [NaN]),
      (''MasVnrArea'', Series Float64 [Num 196]),
      (''BsmtFinSF1'', Series Int64 [Num 706]),
      (''BsmtFinSF2'', Series Int64 [Num 0]),
      (''BsmtUnfSF'', Series Int64 [Num 150]),
      (''TotalBsmtSF'', Series Int64 [Num 856]),
      (''BsmtFullBath'', Series Int64 [Num 1]),
      (''BsmtHalfBath'', Series Int64 [Num 0]),
      (''GarageCars'', Series Int64 [Num 2]),
      (''1stFlrSF'', Series Int64 [Num 856]),
      (''GarageArea'', Series Int64 [Num 548]),
      (''GarageYrBlt'', Series Int64 [Num 2003]),
      (''TotRmsAbvGrd'', Series Int64 [Num 8]),
      (''Street'', Series Object [Str ''Pave'']),
      (''Utilities'', Series Object [Str ''AllPub'']),
      (''MoSold'', Series Int64 [Num 5]),
      (''YrSold'', Series Int64 [Num 2008]),
      (''Condition2'', Series Object [Str ''Norm'']),
      (''RoofMatl'', Series Object [Str ''CompShg'']),
      (''Heating'', Series Object [Str ''GasA'']),
      (''LowQualFinSF'', Series Int64 [Num 0]),
      (''3SsnPorch'', Series Int64 [Num 0]),
      (''PoolArea'', Series Int64 [Num 0]),
      (''MiscVal'', Series Int64 [Num 0])]\<rparr>"

definition world0 :: "int world" where
  "world0 = \<lparr>heap = [train_table, heldout_table], num_cols = [], cat_cols = [], all_categories = []\<rparr>"



text \<open>The table that \<open>transform\<close> makes of the held-out table.\<close>

definition heldout_out :: "int frame" where
  "heldout_out = \<lparr>index = [3], columns =
     [(''MSSubClass'', Series Category [Num 60]),
      (''Neighborhood'', Series Object [Str ''C'']),
      (''PoolQC'', Series Object [Str ''None'']),
      (''MiscFeature'', Series Object [Str ''None'']),
      (''Alley'', Series Object [Str ''None'']),
      (''Fence'', Series Object [Str ''None'']),
      (''FireplaceQu'', Series Object [Str ''TA'']),
      (''GarageType'', Series Object [Str ''Attchd'']),
      (''GarageFinish'', Series Object [Str ''RFn'']),
      (''GarageQual'', Series Object [Str ''TA'']),
      (''GarageCond'', Series Object [Str ''TA'']),
      (''BsmtExposure'', Series Object [Str ''No'']),
      (''BsmtFinType2'', Series Object [Str ''Unf'']),
      (''BsmtFinType1'', Series Object [Str ''GLQ'']),
      (''BsmtCond'', Series Object [Str ''TA'']),
      (''BsmtQual'', Series Object [Str ''Gd'']),
      (''MasVnrType'', Series Object [Str ''BrkFace'']),
      (''Electrical'', Series Object [Str ''SBrkr'']),
      (''MSZoning'', Series Object [Str ''RL'']),
      (''Exterior1st'', Series Object [Str ''VinylSd'']),
      (''Exterior2nd'', Series Object [Str ''VinylSd'']),
      (''KitchenQual'', Series Object [Str ''Gd'']),
      (''Functional'', Series Object [Str ''Typ'']),
      (''SaleType'', Series Object [Str ''WD'']),
      (''LotFrontage'', Series Float64 [Num 0]),
      (''MasVnrArea'', Series Float64 [Num 196]),
      (''BsmtFinSF1'', Series Int64 [Num 706]),
      (''BsmtFinSF2'', Series Int64 [Num 0]),
      (''BsmtUnfSF'', Series Int64 [Num 150]),
      (''TotalBsmtSF'', Series Int64 [Num 856]),
      (''BsmtFullBath'', Series Int64 [Num 1]),
      (''BsmtHalfBath'', Series Int64 [Num 0]),
      (''GarageCars'', Series Int64 [Num 2]),
      (''MonthNumSold'', Series Int64 [Num 101]),
      (''Condition2_is_Norm'', Series BoolT [Bool True]),
      (''RoofMatl_is_CompShg'', Series BoolT [Bool True]),
      (''Heating_is_GasA'', Series BoolT [Bool True]),
      (''LowQualFinSF_not_0'', Series BoolT [Bool False]),
      (''3SsnPorch_not_0'', Series BoolT [Bool False]),
      (''PoolArea_not_0'', Series BoolT [Bool False]),
      (''MiscVal_not_0'', Series BoolT [Bool False])]\<rparr>"

text \<open>What \<open>fit_transform\<close> learns from the training table.\<close>

definition train_num_cols :: "string list" where
  "train_num_cols =
     [''LotFrontage'', ''MasVnrArea'', ''BsmtFinSF1'', ''BsmtFinSF2'', ''BsmtUnfSF'',
     ''TotalBsmtSF'', ''BsmtFullBath'', ''BsmtHalfBath'', ''GarageCars'',
     ''MonthNumSold'']"

definition train_cat_cols :: "string list" where
  "train_cat_cols =
     [''MSSubClass'', ''Neighborhood'', ''PoolQC'', ''MiscFeature'', ''Alley'',
     ''Fence'', ''FireplaceQu'', ''GarageType'', ''GarageFinish'', ''GarageQual'',
     ''GarageCond'', ''BsmtExposure'', ''BsmtFinType2'', ''BsmtFinType1'', ''BsmtCond'',
     ''BsmtQual'', ''MasVnrType'', ''Electrical'', ''MSZoning'', ''Exterior1st'',
     ''Exterior2nd'', ''KitchenQual'', ''Functional'', ''SaleType'',
     ''Condition2_is_Norm'', ''RoofMatl_is_CompShg'', ''Heating_is_GasA'',
     ''LowQualFinSF_not_0'', ''3SsnPorch_not_0'', ''PoolArea_not_0'', ''MiscVal_not_0'']"

definition train_vocab :: "cell list list" where
  "train_vocab =
     [[Num 20, Num 60], [Str ''A'', Str ''B''], [Str ''Gd'', Str ''None''],
     [Str ''None'', Str ''Shed''], [Str ''None'', Str ''Pave''], [Str ''MnPrv'',
     Str ''None''], [Str ''None'', Str ''TA''], [Str ''Attchd'', Str ''None''],
     [Str ''None'', Str ''RFn''], [Str ''None'', Str ''TA''], [Str ''None'', Str ''TA''],
     [Str ''Gd'', Str ''No''], [Str ''Unf''], [Str ''ALQ'', Str ''GLQ''], [Str ''TA''],
     [Str ''Gd''], [Str ''BrkFace'', Str ''None''], [Str ''SBrkr''], [Str ''RL''],
     [Str ''MetalSd'', Str ''VinylSd''], [Str ''MetalSd'', Str ''VinylSd''], [Str ''Gd'',
     Str ''TA''], [Str ''Typ''], [Str ''WD''], [Bool False, Bool True], [Bool True],
     [Bool False, Bool True], [Bool False], [Bool False], [Bool False, Bool True],
     [Bool False, Bool True]]"

text \<open>
  The held-out table with two more columns, whose names are those of columns that the
  stages create.
\<close>

definition extra_table :: "int frame" where
  "extra_table = heldout_table\<lparr>columns := columns heldout_table @
     [(''MonthNumSold'', Series Object [Str ''kept'']),
      (''PoolArea_not_0'', Series Object [Str ''kept''])]\<rparr>"

definition extra_world :: "int world" where
  "extra_world = \<lparr>heap = [extra_table], num_cols = [], cat_cols = [], all_categories = []\<rparr>"

text \<open>
  The held-out table with no month of sale, and the held-out table with no
  neighbourhood.
\<close>

definition no_month_table :: "int frame" where
  "no_month_table = heldout_table\<lparr>columns :=
     map (\<lambda>(c, s). if c = ''MoSold'' then (c, Series Float64 [NaN]) else (c, s)) (columns heldout_table)\<rparr>"

definition no_month_world :: "int world" where
  "no_month_world = \<lparr>heap = [no_month_table], num_cols = [], cat_cols = [], all_categories = []\<rparr>"

definition gap_table :: "int frame" where
  "gap_table = heldout_table\<lparr>columns :=
     map (\<lambda>(c, s). if c = ''Neighborhood'' then (c, Series Object [NaN]) else (c, s)) (columns heldout_table)\<rparr>"

definition gap_world :: "int world" where
  "gap_world = \<lparr>heap = [gap_table], num_cols = [], cat_cols = [], all_categories = []\<rparr>"

section \<open>Properties of the table operations\<close>

lemmas py_defs = ret_def raise_def lift_def bind_def load_def store_def alloc_def
  pd_copy_def pd_getitem_def pd_setitem_def pd_getitem_list_def pd_setitem_list_def pd_drop_def

lemma map_of_set_col: "map_of (set_col kvs c s) = (map_of kvs)(c \<mapsto> s)"
  by (induction kvs c s rule: set_col.induct) auto

lemma map_of_drop: "map_of (filter (\<lambda>kv. fst kv \<notin> S) kvs) = map_of kvs |` (- S)"
  by (induction kvs) (auto simp: restrict_map_def fun_eq_iff)

lemma set_col_same: "map_of kvs c = Some s \<Longrightarrow> set_col kvs c s = kvs"
  by (induction kvs c s rule: set_col.induct) (auto split: if_splits)

lemma preserves_refl: "preserves n w w" by (simp add: preserves_def)
lemma preserves_trans: "preserves n w w1 \<Longrightarrow> preserves n w1 w2 \<Longrightarrow> preserves n w w2"
  by (auto simp: preserves_def)

lemma cast_types_eq:
  "cast_types X w =
     (case map_of (columns (heap w ! X)) ''MSSubClass'' of
        None \<Rightarrow> (Inl (KeyError [''MSSubClass'']), w)
      | Some s \<Rightarrow> (Inr X, w\<lparr>heap := (heap w)[X := df_setitem (heap w ! X) ''MSSubClass'' (astype_category s)]\<rparr>))"
  by (simp add: cast_types_def cols_cast_category_def py_defs df_getitem_def split: option.splits)

lemma drop_columns_eq:
  "drop_columns X w =
     (case df_drop (heap w ! X) cols_drop of
        Inl e \<Rightarrow> (Inl e, w)
      | Inr f \<Rightarrow> (Inr (length (heap w)), w\<lparr>heap := heap w @ [f]\<rparr>))"
  by (simp add: drop_columns_def py_defs split: sum.splits)


lemma fillna_series_Inr: "fillna_series v s = Inr s' \<Longrightarrow> s' = fill_value v s"
  by (auto simp: fillna_series_def split: if_splits)

lemma fillna_series_quiet: "(fillna_series v s :: 'i error + series) = Inl e \<Longrightarrow> e = TypeError"
  by (auto simp: fillna_series_def split: if_splits)

lemma pick_cols_present:
  "\<forall>c\<in>set cs. map_of kvs c \<noteq> None \<Longrightarrow> pick_cols kvs cs = map (\<lambda>c. (c, the (map_of kvs c))) cs"
  by (induction cs) auto

lemma fillna_cols_Inr:
  "(fillna_cols v (map (\<lambda>c. (c, h c)) cs) :: 'i error + (string \<times> series) list) = Inr kvs2 \<Longrightarrow>
     kvs2 = map (\<lambda>c. (c, fill_value v (h c))) cs \<and>
     (\<forall>c\<in>set cs. (fillna_series v (h c) :: 'i error + series) = Inr (fill_value v (h c)))"
proof (induction cs arbitrary: kvs2)
  case Nil
  then show ?case by simp
next
  case (Cons c cs)
  then show ?case
    by (auto split: sum.splits dest!: fillna_series_Inr)
qed

lemma fillna_cols_quiet: "(fillna_cols v kvs :: 'i error + (string \<times> series) list) = Inl e \<Longrightarrow> e = TypeError"
  by (induction kvs arbitrary: e) (auto split: sum.splits dest: fillna_series_quiet)

lemma map_of_set_cols:
  "map_of (set_cols kvs cs (map (\<lambda>c. (c, g c)) cs)) = (\<lambda>c. if c \<in> set cs then Some (g c) else map_of kvs c)"
  by (induction cs arbitrary: kvs) (auto simp: map_of_set_col fun_eq_iff)

lemma set_cols_same:
  "\<forall>c\<in>set cs. map_of kvs c = Some (g c) \<Longrightarrow> set_cols kvs cs (map (\<lambda>c. (c, g c)) cs) = kvs"
  by (induction cs arbitrary: kvs) (auto simp: set_col_same)

lemma fill_step:
  assumes "df_getitem_list f cs = Inr g" and "(df_fillna v g :: 'i error + 'i frame) = Inr g'"
  shows "index (df_setitem_list f cs g') = index f"
    and "map_of (columns (df_setitem_list f cs g')) =
           (\<lambda>c. if c \<in> set cs then map_option (fill_value v) (map_of (columns f) c) else map_of (columns f) c)"
    and "\<forall>c\<in>set cs. \<exists>s. map_of (columns f) c = Some s \<and> (fillna_series v s :: 'i error + series) = Inr (fill_value v s)"
    and "columns g' = map (\<lambda>c. (c, fill_value v (the (map_of (columns f) c)))) cs"
proof -
  from assms(1) have pres: "\<forall>c\<in>set cs. map_of (columns f) c \<noteq> None"
    and g: "g = f\<lparr>columns := pick_cols (columns f) cs\<rparr>"
    by (auto simp: df_getitem_list_def missing_cols_def filter_empty_conv split: if_splits)
  have cg: "columns g = map (\<lambda>c. (c, the (map_of (columns f) c))) cs"
    using pick_cols_present [OF pres] g by simp
  from assms(2) obtain kvs2 where new: "(fillna_cols v (columns g) :: 'i error + (string \<times> series) list) = Inr kvs2"
    and g': "g' = g\<lparr>columns := kvs2\<rparr>"
    by (auto simp: df_fillna_def split: sum.splits)
  from fillna_cols_Inr [OF new [unfolded cg]]
  have n: "kvs2 = map (\<lambda>c. (c, fill_value v (the (map_of (columns f) c)))) cs"
    and ok: "\<forall>c\<in>set cs. (fillna_series v (the (map_of (columns f) c)) :: 'i error + series)
                 = Inr (fill_value v (the (map_of (columns f) c)))"
    by auto
  show "index (df_setitem_list f cs g') = index f"
    by (simp add: df_setitem_list_def)
  show "columns g' = map (\<lambda>c. (c, fill_value v (the (map_of (columns f) c)))) cs"
    using g' n by simp
  show "map_of (columns (df_setitem_list f cs g')) =
           (\<lambda>c. if c \<in> set cs then map_option (fill_value v) (map_of (columns f) c) else map_of (columns f) c)"
    using pres by (auto simp: df_setitem_list_def g' n map_of_set_cols fun_eq_iff)
  show "\<forall>c\<in>set cs. \<exists>s. map_of (columns f) c = Some s \<and> (fillna_series v s :: 'i error + series) = Inr (fill_value v s)"
    using pres ok by fastforce
qed

lemma fillna_eq:
  "fillna X w =
     (case df_getitem_list (heap w ! X) cols_fillna_None_str of
        Inl e \<Rightarrow> (Inl e, w)
      | Inr g \<Rightarrow>
         (case df_fillna (Str ''None'') g of
            Inl e \<Rightarrow> (Inl e, w)
          | Inr g' \<Rightarrow>
             (let w1 = w\<lparr>heap := (heap w)[X := df_setitem_list (heap w ! X) cols_fillna_None_str g']\<rparr> in
              case df_getitem_list (heap w1 ! X) cols_fillna_0 of
                Inl e \<Rightarrow> (Inl e, w1)
              | Inr h \<Rightarrow>
                 (case df_fillna (Num 0) h of
                    Inl e \<Rightarrow> (Inl e, w1)
                  | Inr h' \<Rightarrow>
                      (Inr X, w1\<lparr>heap := (heap w1)[X := df_setitem_list (heap w1 ! X) cols_fillna_0 h']\<rparr>)))))"
  by (simp add: fillna_def py_defs Let_def split: sum.splits)


lemma index_without [simp]: "index (without f cs) = index f"
  by (simp add: without_def)

lemma map_of_without: "map_of (columns (without f cs)) = map_of (columns f) |` (- set cs)"
  by (simp add: without_def map_of_drop)

lemma df_drop_Inr:
  "df_drop f cs = Inr g \<Longrightarrow> g = without f cs \<and> (\<forall>c\<in>set cs. map_of (columns f) c \<noteq> None)"
  by (auto simp: df_drop_def missing_cols_def filter_empty_conv split: if_splits)

lemma df_drop_present:
  "\<forall>c\<in>set cs. map_of (columns f) c \<noteq> None \<Longrightarrow> df_drop f cs = Inr (without f cs)"
  by (auto simp: df_drop_def missing_cols_def filter_empty_conv)

lemma date_Inr:
  fixes w :: "'i world"
  assumes "transform_date_sold X w = (Inr Y, w')" and "X < length (heap w)"
  shows "\<exists>mo yr ds.
      map_of (columns (heap w ! X)) ''MoSold'' = Some mo \<and>
      map_of (columns (heap w ! X)) ''YrSold'' = Some yr \<and>
      (to_datetime_list (map2 (\<lambda>a b. a @ ''/'' @ b) (astype_str mo) (astype_str yr)) :: 'i error + timestamp list) = Inr ds \<and>
      heap w' ! X = df_setitem (heap w ! X) ''MonthNumSold'' (apply_int (get_months_after_start_year 2000) ds) \<and>
      df_drop (heap w' ! X) [''MoSold'', ''YrSold''] = Inr (heap w' ! Y) \<and>
      Y = length (heap w) \<and> w' = w\<lparr>heap := (heap w)[X := heap w' ! X] @ [heap w' ! Y]\<rparr>"
  using assms
  by (auto simp: transform_date_sold_def py_defs df_getitem_def nth_append split: option.splits sum.splits)


lemma binarize_present:
  fixes w :: "'i world"
  assumes "X < length (heap w)"
    and "map_of (columns (heap w ! X)) ''Condition2'' = Some s1"
    and "map_of (columns (heap w ! X)) ''RoofMatl'' = Some s2"
    and "map_of (columns (heap w ! X)) ''Heating'' = Some s3"
    and "map_of (columns (heap w ! X)) ''LowQualFinSF'' = Some s4"
    and "map_of (columns (heap w ! X)) ''3SsnPorch'' = Some s5"
    and "map_of (columns (heap w ! X)) ''PoolArea'' = Some s6"
    and "map_of (columns (heap w ! X)) ''MiscVal'' = Some s7"
  shows "\<exists>Y w'. binarize_features X w = (Inr Y, w')"
  using assms
  by (simp add: binarize_features_def binarize_features_by_true_value_def
      binarize_features_by_false_value_def py_defs df_getitem_def df_setitem_def map_of_set_col
      str_int_def digits.simps digit_char_def df_drop_def missing_cols_def
      split: option.splits sum.splits)





lemma binarized_index: "index (binarized f s1 s2 s3 s4 s5 s6 s7) = index f"
  by (simp add: binarized_def df_setitem_def)

lemma binarize_Inr:
  fixes w :: "'i world"
  assumes "binarize_features X w = (Inr Y, w')" and "X < length (heap w)"
  shows "\<exists>s1 s2 s3 s4 s5 s6 s7.
      map_of (columns (heap w ! X)) ''Condition2'' = Some s1 \<and>
      map_of (columns (heap w ! X)) ''RoofMatl'' = Some s2 \<and>
      map_of (columns (heap w ! X)) ''Heating'' = Some s3 \<and>
      map_of (columns (heap w ! X)) ''LowQualFinSF'' = Some s4 \<and>
      map_of (columns (heap w ! X)) ''3SsnPorch'' = Some s5 \<and>
      map_of (columns (heap w ! X)) ''PoolArea'' = Some s6 \<and>
      map_of (columns (heap w ! X)) ''MiscVal'' = Some s7 \<and>
      index (heap w' ! X) = index (heap w ! X) \<and>
      map_of (columns (heap w' ! X)) = (map_of (columns (heap w ! X)))
        (''Condition2_is_Norm'' \<mapsto> eq_scalar s1 (Str ''Norm''),
         ''RoofMatl_is_CompShg'' \<mapsto> eq_scalar s2 (Str ''CompShg''),
         ''Heating_is_GasA'' \<mapsto> eq_scalar s3 (Str ''GasA''),
         ''LowQualFinSF_not_0'' \<mapsto> ne_scalar s4 (Num 0),
         ''3SsnPorch_not_0'' \<mapsto> ne_scalar s5 (Num 0),
         ''PoolArea_not_0'' \<mapsto> ne_scalar s6 (Num 0),
         ''MiscVal_not_0'' \<mapsto> ne_scalar s7 (Num 0)) \<and>
      df_drop (heap w' ! X) [''Condition2'', ''RoofMatl'', ''Heating'', ''LowQualFinSF'', ''3SsnPorch'', ''PoolArea'', ''MiscVal''] = Inr (heap w' ! Y) \<and>
      Y = length (heap w) \<and> w' = w\<lparr>heap := (heap w)[X := heap w' ! X] @ [heap w' ! Y]\<rparr>"
  using assms
  by (auto simp: binarize_features_def binarize_features_by_true_value_def
      binarize_features_by_false_value_def py_defs df_getitem_def df_setitem_def map_of_set_col
      str_int_def digits.simps digit_char_def nth_append
      split: option.splits sum.splits)

subsection \<open>What every stage leaves alone\<close>

lemma bind_cases:
  "bind m k w = (r, w') \<Longrightarrow>
     (\<exists>e. m w = (Inl e, w') \<and> r = Inl e) \<or> (\<exists>x w1. m w = (Inr x, w1) \<and> k x w1 = (r, w'))"
  by (auto simp: bind_def split: prod.splits sum.splits)

lemma preserves_update:
  "n \<le> X \<Longrightarrow> preserves n w (w\<lparr>heap := (heap w)[X := F]\<rparr>)"
  by (simp add: preserves_def)

lemma preserves_append:
  "n \<le> length (heap w) \<Longrightarrow> preserves n w (w\<lparr>heap := heap w @ fs\<rparr>)"
  by (simp add: preserves_def)

lemma preserves_update_append:
  "n \<le> X \<Longrightarrow> X < length (heap w) \<Longrightarrow> preserves n w (w\<lparr>heap := (heap w)[X := F] @ fs\<rparr>)"
  by (simp add: preserves_def)

lemma cast_types_frame:
  fixes w :: "'i world"
  assumes "cast_types X w = (r, w')" and "n \<le> X" and "X < length (heap w)"
  shows "preserves n w w' \<and> length (heap w') = length (heap w) \<and> (\<forall>Y. r = Inr Y \<longrightarrow> Y = X) \<and> (\<forall>i c. r \<noteq> Inl (NaNsPresent i c))"
  using assms by (auto simp: cast_types_eq preserves_update preserves_refl split: option.splits)

lemma df_getitem_list_quiet: "df_getitem_list f cs = Inl e \<Longrightarrow> \<exists>ks. e = KeyError ks"
  by (auto simp: df_getitem_list_def split: if_splits)

lemma df_fillna_quiet: "(df_fillna v f :: 'i error + 'i frame) = Inl e \<Longrightarrow> e = TypeError"
  by (auto simp: df_fillna_def split: sum.splits dest: fillna_cols_quiet)

lemma df_drop_quiet: "df_drop f cs = Inl e \<Longrightarrow> \<exists>ks. e = KeyError ks"
  by (auto simp: df_drop_def split: if_splits)

lemma fillna_frame:
  fixes w :: "'i world"
  assumes "fillna X w = (r, w')" and "n \<le> X" and "X < length (heap w)"
  shows "preserves n w w' \<and> length (heap w') = length (heap w) \<and> (\<forall>Y. r = Inr Y \<longrightarrow> Y = X) \<and> (\<forall>i c. r \<noteq> Inl (NaNsPresent i c))"
  using assms
  by (auto simp: fillna_eq Let_def preserves_def split: sum.splits
      dest: df_getitem_list_quiet df_fillna_quiet)

lemma drop_columns_frame:
  fixes w :: "'i world"
  assumes "drop_columns X w = (r, w')" and "n \<le> X" and "X < length (heap w)"
  shows "preserves n w w' \<and> (\<forall>Y. r = Inr Y \<longrightarrow> Y = length (heap w) \<and> length (heap w') = Suc Y) \<and> (\<forall>i c. r \<noteq> Inl (NaNsPresent i c))"
  using assms
  by (auto simp: drop_columns_eq preserves_def split: sum.splits dest: df_drop_quiet)

lemma to_datetime_quiet: "(to_datetime s :: 'i error + timestamp) = Inl e \<Longrightarrow> e = ValueError s \<or> e = OutOfBoundsDatetime s"
  by (auto simp: to_datetime_def split: option.splits if_splits)

lemma to_datetime_list_quiet: "(to_datetime_list ss :: 'i error + timestamp list) = Inl e \<Longrightarrow> \<exists>s. e = ValueError s \<or> e = OutOfBoundsDatetime s"
  by (induction ss arbitrary: e) (auto split: sum.splits dest: to_datetime_quiet)

lemma date_frame:
  fixes w :: "'i world"
  assumes "transform_date_sold X w = (r, w')" and "n \<le> X" and "X < length (heap w)"
  shows "preserves n w w' \<and> (\<forall>Y. r = Inr Y \<longrightarrow> Y = length (heap w) \<and> length (heap w') = Suc Y) \<and> (\<forall>i c. r \<noteq> Inl (NaNsPresent i c))"
  using assms
  by (auto simp: transform_date_sold_def py_defs df_getitem_def preserves_def split: option.splits sum.splits
      dest: df_drop_quiet to_datetime_list_quiet)

lemma binarize_frame:
  fixes w :: "'i world"
  assumes "binarize_features X w = (r, w')" and "n \<le> X" and "X < length (heap w)"
  shows "preserves n w w' \<and> (\<forall>Y. r = Inr Y \<longrightarrow> Y = length (heap w) \<and> length (heap w') = Suc Y) \<and> (\<forall>i c. r \<noteq> Inl (NaNsPresent i c))"
  using assms
  by (auto simp: binarize_features_def binarize_features_by_true_value_def
      binarize_features_by_false_value_def py_defs df_getitem_def preserves_def split: option.splits sum.splits
      dest: df_drop_quiet)

lemma validate_eq:
  "validate_no_nans X w =
     (if any_na (heap w ! X) then (Inl (NaNsPresent (na_rows (heap w ! X)) (na_cols (heap w ! X))), w)
      else (Inr (), w))"
  by (simp add: validate_no_nans_def py_defs)

lemma pd_copy_eq: "pd_copy X w = (Inr (length (heap w)), w\<lparr>heap := heap w @ [heap w ! X]\<rparr>)"
  by (simp add: py_defs)

text \<open>The run of a successful transform, stage by stage.\<close>

lemma transform_Inr:
  fixes w :: "'i world"
  assumes "transform X0 w = (Inr Y, w')"
  shows "\<exists>w1 w2 w3 w4 w5 X4 X5.
      X4 = Suc (length (heap w)) \<and> X5 = Suc X4 \<and> Y = Suc X5 \<and>
      w1 = w\<lparr>heap := heap w @ [heap w ! X0]\<rparr> \<and>
      cast_types (length (heap w)) w1 = (Inr (length (heap w)), w2) \<and>
      fillna (length (heap w)) w2 = (Inr (length (heap w)), w3) \<and>
      drop_columns (length (heap w)) w3 = (Inr X4, w4) \<and>
      transform_date_sold X4 w4 = (Inr X5, w5) \<and>
      binarize_features X5 w5 = (Inr Y, w') \<and>
      length (heap w2) = Suc (length (heap w)) \<and> length (heap w3) = Suc (length (heap w)) \<and>
      length (heap w4) = Suc X4 \<and> length (heap w5) = Suc X5 \<and> length (heap w') = Suc Y \<and>
      \<not> any_na (heap w' ! Y)"
proof -
  let ?n = "length (heap w)"
  let ?w1 = "w\<lparr>heap := heap w @ [heap w ! X0]\<rparr>"
  from assms have a: "bind (cast_types ?n) (\<lambda>X2.
     bind (fillna X2) (\<lambda>X3.
     bind (drop_columns X3) (\<lambda>X4.
     bind (transform_date_sold X4) (\<lambda>X5.
     bind (binarize_features X5) (\<lambda>X6.
     bind (validate_no_nans X6) (\<lambda>_.
     ret X6)))))) ?w1 = (Inr Y, w')"
    by (simp add: transform_def bind_def [of "pd_copy X0"] pd_copy_eq)
  have l1: "?n < length (heap ?w1)" by simp
  from bind_cases [OF a] obtain X2 w2 where c: "cast_types ?n ?w1 = (Inr X2, w2)"
    and b: "bind (fillna X2) (\<lambda>X3.
     bind (drop_columns X3) (\<lambda>X4.
     bind (transform_date_sold X4) (\<lambda>X5.
     bind (binarize_features X5) (\<lambda>X6.
     bind (validate_no_nans X6) (\<lambda>_.
     ret X6))))) w2 = (Inr Y, w')"
    by auto
  from cast_types_frame [OF c le_refl l1] have X2: "X2 = ?n" and l2: "length (heap w2) = Suc ?n"
    by auto
  from bind_cases [OF b] obtain X3 w3 where f: "fillna X2 w2 = (Inr X3, w3)"
    and b3: "bind (drop_columns X3) (\<lambda>X4.
     bind (transform_date_sold X4) (\<lambda>X5.
     bind (binarize_features X5) (\<lambda>X6.
     bind (validate_no_nans X6) (\<lambda>_.
     ret X6)))) w3 = (Inr Y, w')"
    by auto
  from fillna_frame [OF f le_refl] X2 l2 have X3: "X3 = ?n" and l3: "length (heap w3) = Suc ?n"
    by auto
  from bind_cases [OF b3] obtain X4 w4 where d: "drop_columns X3 w3 = (Inr X4, w4)"
    and b4: "bind (transform_date_sold X4) (\<lambda>X5.
     bind (binarize_features X5) (\<lambda>X6.
     bind (validate_no_nans X6) (\<lambda>_.
     ret X6))) w4 = (Inr Y, w')"
    by auto
  from drop_columns_frame [OF d le_refl] X3 l3 have X4: "X4 = Suc ?n" and l4: "length (heap w4) = Suc X4"
    by auto
  from bind_cases [OF b4] obtain X5 w5 where t: "transform_date_sold X4 w4 = (Inr X5, w5)"
    and b5: "bind (binarize_features X5) (\<lambda>X6.
     bind (validate_no_nans X6) (\<lambda>_.
     ret X6)) w5 = (Inr Y, w')"
    by auto
  from date_frame [OF t le_refl] l4 have X5: "X5 = Suc X4" and l5: "length (heap w5) = Suc X5"
    by auto
  from bind_cases [OF b5] obtain X6 w6 where bz: "binarize_features X5 w5 = (Inr X6, w6)"
    and b6: "bind (validate_no_nans X6) (\<lambda>_. ret X6) w6 = (Inr Y, w')"
    by auto
  from binarize_frame [OF bz le_refl] l5 have X6: "X6 = Suc X5" and l6: "length (heap w6) = Suc X6"
    by auto
  from b6 have v: "\<not> any_na (heap w6 ! X6)" and e: "Y = X6" "w' = w6"
    by (auto simp: bind_def validate_eq ret_def split: if_splits)
  show ?thesis
    using c f d t bz X2 X3 X4 X5 X6 l2 l3 l4 l5 l6 v e by simp
qed

lemma reported_quiet: "\<forall>i c. r \<noteq> Inl (NaNsPresent i c) \<Longrightarrow> reported w' r"
  by (simp add: reported_def)

lemma tail_validate:
  fixes w :: "'i world"
  assumes "bind (validate_no_nans X) (\<lambda>_. ret X) w = (r, w')" and "Suc X = length (heap w)"
  shows "preserves n w w' \<and> reported w' r"
proof -
  from assms(2) have ne: "heap w \<noteq> []" by auto
  from assms(2) have "X = length (heap w) - 1" by simp
  with ne have "heap w \<noteq> []" and "heap w ! X = last (heap w)"
    by (simp_all add: last_conv_nth)
  with assms(1) show ?thesis
    by (auto simp: bind_def validate_eq ret_def reported_def preserves_refl split: if_splits)
qed

lemma tail_binarize:
  fixes w :: "'i world"
  assumes "bind (binarize_features X) (\<lambda>X6. bind (validate_no_nans X6) (\<lambda>_. ret X6)) w = (r, w')"
    and "n \<le> X" and "X < length (heap w)"
  shows "preserves n w w' \<and> reported w' r"
  using bind_cases [OF assms(1)]
proof (elim disjE exE conjE)
  fix e assume "binarize_features X w = (Inl e, w')" "r = Inl e"
  with binarize_frame [OF _ assms(2,3)] show ?thesis
    by (auto intro: reported_quiet)
next
  fix Y w1 assume s: "binarize_features X w = (Inr Y, w1)"
    and k: "bind (validate_no_nans Y) (\<lambda>_. ret Y) w1 = (r, w')"
  from binarize_frame [OF s assms(2,3)] have p: "preserves n w w1" and l: "Suc Y = length (heap w1)"
    by auto
  from tail_validate [OF k l, of n] p show ?thesis
    by (auto intro: preserves_trans)
qed

lemma tail_date:
  fixes w :: "'i world"
  assumes "bind (transform_date_sold X) (\<lambda>X5. bind (binarize_features X5) (\<lambda>X6. bind (validate_no_nans X6) (\<lambda>_. ret X6))) w = (r, w')"
    and "n \<le> X" and "X < length (heap w)"
  shows "preserves n w w' \<and> reported w' r"
  using bind_cases [OF assms(1)]
proof (elim disjE exE conjE)
  fix e assume "transform_date_sold X w = (Inl e, w')" "r = Inl e"
  with date_frame [OF _ assms(2,3)] show ?thesis
    by (auto intro: reported_quiet)
next
  fix Y w1 assume s: "transform_date_sold X w = (Inr Y, w1)"
    and k: "bind (binarize_features Y) (\<lambda>X6. bind (validate_no_nans X6) (\<lambda>_. ret X6)) w1 = (r, w')"
  from date_frame [OF s assms(2,3)] have p: "preserves n w w1" and l: "Y = length (heap w)" "length (heap w1) = Suc Y"
    by auto
  from l assms have "n \<le> Y" "Y < length (heap w1)" by auto
  from tail_binarize [OF k this] p show ?thesis
    by (auto intro: preserves_trans)
qed

lemma tail_drop:
  fixes w :: "'i world"
  assumes "bind (drop_columns X) (\<lambda>X4. bind (transform_date_sold X4) (\<lambda>X5. bind (binarize_features X5) (\<lambda>X6. bind (validate_no_nans X6) (\<lambda>_. ret X6)))) w = (r, w')"
    and "n \<le> X" and "X < length (heap w)"
  shows "preserves n w w' \<and> reported w' r"
  using bind_cases [OF assms(1)]
proof (elim disjE exE conjE)
  fix e assume "drop_columns X w = (Inl e, w')" "r = Inl e"
  with drop_columns_frame [OF _ assms(2,3)] show ?thesis
    by (auto intro: reported_quiet)
next
  fix Y w1 assume s: "drop_columns X w = (Inr Y, w1)"
    and k: "bind (transform_date_sold Y) (\<lambda>X5. bind (binarize_features X5) (\<lambda>X6. bind (validate_no_nans X6) (\<lambda>_. ret X6))) w1 = (r, w')"
  from drop_columns_frame [OF s assms(2,3)] have p: "preserves n w w1" and l: "Y = length (heap w)" "length (heap w1) = Suc Y"
    by auto
  from l assms have "n \<le> Y" "Y < length (heap w1)" by auto
  from tail_date [OF k this] p show ?thesis
    by (auto intro: preserves_trans)
qed

lemma tail_fillna:
  fixes w :: "'i world"
  assumes "bind (fillna X) (\<lambda>X3. bind (drop_columns X3) (\<lambda>X4. bind (transform_date_sold X4) (\<lambda>X5. bind (binarize_features X5) (\<lambda>X6. bind (validate_no_nans X6) (\<lambda>_. ret X6))))) w = (r, w')"
    and "n \<le> X" and "X < length (heap w)"
  shows "preserves n w w' \<and> reported w' r"
  using bind_cases [OF assms(1)]
proof (elim disjE exE conjE)
  fix e assume "fillna X w = (Inl e, w')" "r = Inl e"
  with fillna_frame [OF _ assms(2,3)] show ?thesis
    by (auto intro: reported_quiet)
next
  fix Y w1 assume s: "fillna X w = (Inr Y, w1)"
    and k: "bind (drop_columns Y) (\<lambda>X4. bind (transform_date_sold X4) (\<lambda>X5. bind (binarize_features X5) (\<lambda>X6. bind (validate_no_nans X6) (\<lambda>_. ret X6)))) w1 = (r, w')"
  from fillna_frame [OF s assms(2,3)] have p: "preserves n w w1" and l: "Y = X" "length (heap w1) = length (heap w)"
    by auto
  from l assms have "n \<le> Y" "Y < length (heap w1)" by auto
  from tail_drop [OF k this] p show ?thesis
    by (auto intro: preserves_trans)
qed

lemma tail_cast:
  fixes w :: "'i world"
  assumes "bind (cast_types X) (\<lambda>X2. bind (fillna X2) (\<lambda>X3. bind (drop_columns X3) (\<lambda>X4. bind (transform_date_sold X4) (\<lambda>X5. bind (binarize_features X5) (\<lambda>X6. bind (validate_no_nans X6) (\<lambda>_. ret X6)))))) w = (r, w')"
    and "n \<le> X" and "X < length (heap w)"
  shows "preserves n w w' \<and> reported w' r"
  using bind_cases [OF assms(1)]
proof (elim disjE exE conjE)
  fix e assume "cast_types X w = (Inl e, w')" "r = Inl e"
  with cast_types_frame [OF _ assms(2,3)] show ?thesis
    by (auto intro: reported_quiet)
next
  fix Y w1 assume s: "cast_types X w = (Inr Y, w1)"
    and k: "bind (fillna Y) (\<lambda>X3. bind (drop_columns X3) (\<lambda>X4. bind (transform_date_sold X4) (\<lambda>X5. bind (binarize_features X5) (\<lambda>X6. bind (validate_no_nans X6) (\<lambda>_. ret X6))))) w1 = (r, w')"
  from cast_types_frame [OF s assms(2,3)] have p: "preserves n w w1" and l: "Y = X" "length (heap w1) = length (heap w)"
    by auto
  from l assms have "n \<le> Y" "Y < length (heap w1)" by auto
  from tail_fillna [OF k this] p show ?thesis
    by (auto intro: preserves_trans)
qed

lemma transform_frame:
  fixes w :: "'i world"
  assumes "transform X0 w = (r, w')"
  shows "preserves (length (heap w)) w w' \<and> reported w' r"
proof -
  let ?n = "length (heap w)"
  let ?w1 = "w\<lparr>heap := heap w @ [heap w ! X0]\<rparr>"
  from assms have a: "bind (cast_types ?n) (\<lambda>X2.
     bind (fillna X2) (\<lambda>X3.
     bind (drop_columns X3) (\<lambda>X4.
     bind (transform_date_sold X4) (\<lambda>X5.
     bind (binarize_features X5) (\<lambda>X6.
     bind (validate_no_nans X6) (\<lambda>_.
     ret X6)))))) ?w1 = (r, w')"
    by (simp add: transform_def bind_def [of "pd_copy X0"] pd_copy_eq)
  have "preserves ?n w ?w1" by (simp add: preserves_def)
  moreover have "?n \<le> ?n" "?n < length (heap ?w1)" by simp_all
  from tail_cast [OF a this] have "preserves ?n ?w1 w'" "reported w' r" by auto
  ultimately show ?thesis by (auto intro: preserves_trans)
qed

subsection \<open>Learning the feature roles\<close>

lemma bind_Inr: "m w = (Inr x, w1) \<Longrightarrow> bind m k w = k x w1"
  by (simp add: bind_def)

lemma bind_Inl: "m w = (Inl e, w1) \<Longrightarrow> bind m k w = (Inl e, w1)"
  by (simp add: bind_def)

lemma collect_sorted:
  fixes w :: "'i world"
  assumes "collect cs (\<lambda>col. bind (pd_getitem X col) (\<lambda>s. lift (py_sorted (py_unique (cells s))))) w = (r, w')"
    and "\<forall>c\<in>set cs. map_of (columns (heap w ! X)) c \<noteq> None"
  shows "w' = w \<and> (\<forall>e. r = Inl e \<longrightarrow> e = TypeError) \<and>
         (\<forall>cats. r = Inr cats \<longrightarrow>
            map Inr cats = map (\<lambda>c. (py_sorted (py_unique (cells (the (map_of (columns (heap w ! X)) c)))) :: 'i error + cell list)) cs)"
  using assms
proof (induction cs arbitrary: r w')
  case Nil
  then show ?case by (auto simp: ret_def)
next
  case (Cons c cs)
  from Cons.prems(2) obtain s where s: "map_of (columns (heap w ! X)) c = Some s" by auto
  have one: "bind (pd_getitem X c) (\<lambda>s. lift (py_sorted (py_unique (cells s)))) w = (py_sorted (py_unique (cells s)), w)"
    by (simp add: py_defs df_getitem_def s)
  show ?case
  proof (cases "py_sorted (py_unique (cells s)) :: 'i error + cell list")
    case (Inl e)
    then have "e = TypeError" by (auto simp: py_sorted_def split: if_splits)
    from one Inl have one': "bind (pd_getitem X c) (\<lambda>s. lift (py_sorted (py_unique (cells s)))) w = (Inl e, w)"
      by simp
    from Cons.prems(1) \<open>e = TypeError\<close> show ?thesis
      by (auto simp: bind_Inl [where m = "bind (pd_getitem X c) (\<lambda>s. lift (py_sorted (py_unique (cells s))))", OF one'])
  next
    case (Inr v)
    obtain r2 w2 where rest: "collect cs (\<lambda>col. bind (pd_getitem X col) (\<lambda>s. lift (py_sorted (py_unique (cells s))))) w = (r2, w2)"
      by (cases "collect cs (\<lambda>col. bind (pd_getitem X col) (\<lambda>s. lift (py_sorted (py_unique (cells s))))) w") auto
    from Cons.IH [OF rest] Cons.prems(2) have ih: "w2 = w" "\<forall>e. r2 = Inl e \<longrightarrow> e = TypeError"
      "\<forall>cats. r2 = Inr cats \<longrightarrow>
            map Inr cats = map (\<lambda>c. (py_sorted (py_unique (cells (the (map_of (columns (heap w ! X)) c)))) :: 'i error + cell list)) cs"
      by auto
    from one Inr have one': "bind (pd_getitem X c) (\<lambda>s. lift (py_sorted (py_unique (cells s)))) w = (Inr v, w)"
      by simp
    from Cons.prems(1) rest have "(r, w') = (case r2 of Inl e \<Rightarrow> (Inl e, w2) | Inr ys \<Rightarrow> (Inr (v # ys), w2))"
      by (cases r2)
        (auto simp: bind_Inr [where m = "bind (pd_getitem X c) (\<lambda>s. lift (py_sorted (py_unique (cells s))))", OF one']
          bind_Inl [where m = "collect cs (\<lambda>col. bind (pd_getitem X col) (\<lambda>s. lift (py_sorted (py_unique (cells s)))))"]
          bind_Inr [where m = "collect cs (\<lambda>col. bind (pd_getitem X col) (\<lambda>s. lift (py_sorted (py_unique (cells s)))))"] ret_def)
    with ih Inr s show ?thesis
      by (cases r2) auto
  qed
qed

lemma exclude_number_present:
  "c \<in> set (select_dtypes_exclude_number f) \<Longrightarrow> map_of (columns f) c \<noteq> None"
proof -
  assume "c \<in> set (select_dtypes_exclude_number f)"
  then have "c \<in> fst ` set (columns f)"
    by (auto simp: select_dtypes_exclude_number_def)
  then show ?thesis
    by (simp add: map_of_eq_None_iff)
qed

lemma fit_transform_Inr:
  fixes w :: "'i world"
  assumes "fit_transform X w = (Inr Y, w')"
  shows "\<exists>w1 cats. transform X w = (Inr Y, w1) \<and>
      w' = w1\<lparr>num_cols := select_dtypes_include_number (heap w1 ! Y),
              cat_cols := select_dtypes_exclude_number (heap w1 ! Y),
              all_categories := cats\<rparr> \<and>
      map Inr cats = map (\<lambda>c. (py_sorted (py_unique (cells (the (map_of (columns (heap w1 ! Y)) c)))) :: 'i error + cell list))
         (select_dtypes_exclude_number (heap w1 ! Y))"
proof -
  from bind_cases [OF assms [unfolded fit_transform_def]]
  obtain Z w1 where t: "transform X w = (Inr Z, w1)"
    and a: "bind (load Z) (\<lambda>f.
     bind (\<lambda>w. (Inr (), w\<lparr>num_cols := select_dtypes_include_number f\<rparr>)) (\<lambda>_.
     bind (\<lambda>w. (Inr (), w\<lparr>cat_cols := select_dtypes_exclude_number f\<rparr>)) (\<lambda>_.
     bind (\<lambda>w. (Inr (cat_cols w), w)) (\<lambda>cs.
     bind (collect cs (\<lambda>col. bind (pd_getitem Z col) (\<lambda>s. lift (py_sorted (py_unique (cells s)))))) (\<lambda>cats.
     bind (\<lambda>w. (Inr (), w\<lparr>all_categories := cats\<rparr>)) (\<lambda>_.
     ret Z)))))) w1 = (Inr Y, w')"
    by auto
  let ?f = "heap w1 ! Z"
  let ?w2 = "w1\<lparr>num_cols := select_dtypes_include_number ?f, cat_cols := select_dtypes_exclude_number ?f\<rparr>"
  from a have b: "bind (collect (select_dtypes_exclude_number ?f)
        (\<lambda>col. bind (pd_getitem Z col) (\<lambda>s. lift (py_sorted (py_unique (cells s)))))) (\<lambda>cats.
     bind (\<lambda>w. (Inr (), w\<lparr>all_categories := cats\<rparr>)) (\<lambda>_.
     ret Z)) ?w2 = (Inr Y, w')"
    by (simp add: bind_Inr [where m = "load Z" and x = ?f and ?w1.0 = w1] load_def
        bind_Inr [where m = "\<lambda>w. (Inr (), w\<lparr>num_cols := select_dtypes_include_number ?f\<rparr>)"]
        bind_Inr [where m = "\<lambda>w. (Inr (), w\<lparr>cat_cols := select_dtypes_exclude_number ?f\<rparr>)"]
        bind_Inr [where m = "\<lambda>w. (Inr (cat_cols w), w)"])
  from bind_cases [OF b] obtain cats w3 where
    c: "collect (select_dtypes_exclude_number ?f)
        (\<lambda>col. bind (pd_getitem Z col) (\<lambda>s. lift (py_sorted (py_unique (cells s))))) ?w2 = (Inr cats, w3)"
    and d: "bind (\<lambda>w. (Inr (), w\<lparr>all_categories := cats\<rparr>)) (\<lambda>_. ret Z) w3 = (Inr Y, w')"
    by auto
  have pres: "\<forall>c\<in>set (select_dtypes_exclude_number ?f). map_of (columns (heap ?w2 ! Z)) c \<noteq> None"
    by (simp add: exclude_number_present)
  from collect_sorted [OF c pres] have w3: "w3 = ?w2"
    and cats: "map Inr cats = map (\<lambda>c. (py_sorted (py_unique (cells (the (map_of (columns ?f) c)))) :: 'i error + cell list))
         (select_dtypes_exclude_number ?f)"
    by auto
  from d have "Y = Z" "w' = w3\<lparr>all_categories := cats\<rparr>"
    by (auto simp: bind_def ret_def)
  with t w3 cats show ?thesis by auto
qed



lemma set_py_unique: "set (py_unique vs) \<subseteq> set vs"
  by (induction vs rule: py_unique.induct) auto

lemma same_value_refl: "same_value v v"
  by (cases v) (auto simp: same_value_def)

lemma py_unique_covers: "v \<in> set vs \<Longrightarrow> \<exists>u\<in>set (py_unique vs). same_value u v"
proof (induction vs rule: py_unique.induct)
  case 1
  then show ?case by simp
next
  case (2 x xs)
  show ?case
  proof (cases "same_value x v")
    case True
    then show ?thesis by auto
  next
    case False
    with "2.prems" have "v \<in> set (filter (\<lambda>u. \<not> same_value x u) xs)"
      by (auto simp: same_value_refl)
    from "2.IH" [OF this] show ?thesis by auto
  qed
qed

lemma py_unique_notin:
  assumes "u \<in> set (py_unique (filter (\<lambda>u. \<not> same_value x u) xs))"
  shows "\<not> same_value x u"
proof -
  from assms set_py_unique [of "filter (\<lambda>u. \<not> same_value x u) xs"]
  have "u \<in> set (filter (\<lambda>u. \<not> same_value x u) xs)"
    by (rule set_mp [rotated])
  then show ?thesis by simp
qed


lemma py_unique_pairwise: "sorted_wrt (\<lambda>a b. \<not> same_value a b) (py_unique vs)"
proof (induction vs rule: py_unique.induct)
  case 1
  show ?case by simp
next
  case (2 x xs)
  have ih: "sorted_wrt (\<lambda>a b. \<not> same_value a b) (py_unique (filter (\<lambda>u. \<not> same_value x u) xs))"
    by (rule "2.IH")
  have "py_unique (x # xs) = x # py_unique (filter (\<lambda>u. \<not> same_value x u) xs)"
    by simp
  moreover have "sorted_wrt (\<lambda>a b. \<not> same_value a b) (x # py_unique (filter (\<lambda>u. \<not> same_value x u) xs))"
    unfolding sorted_wrt.simps using ih py_unique_notin by blast
  ultimately show ?case by (simp only:)
qed

lemma pairwise_distinct_keys:
  "sorted_wrt (\<lambda>a b. f a \<noteq> f b) xs \<Longrightarrow> distinct (map f xs)"
  by (induction xs) auto

lemma distinct_map_insort_key:
  "distinct (map f (insort_key g x xs)) \<longleftrightarrow> f x \<notin> f ` set xs \<and> distinct (map f xs)"
  by (induction xs) (auto simp: set_insort_key)

lemma distinct_map_sort_key: "distinct (map f (sort_key g xs)) = distinct (map f xs)"
  by (induction xs) (simp_all add: distinct_map_insort_key)

lemma strict_sorted_key:
  assumes "distinct (map f xs)"
  shows "sorted_wrt (\<lambda>a b. f a < f b) (sort_key f xs)"
proof -
  have "sorted (map f (sort_key f xs))" by (rule sorted_sort_key)
  moreover have "distinct (map f (sort_key f xs))"
    using assms by (simp add: distinct_map_sort_key)
  ultimately have "sorted_wrt (<) (map f (sort_key f xs))"
    by (simp add: strict_sorted_iff)
  then show ?thesis by (simp add: sorted_wrt_map)
qed

lemma same_value_str: "is_str a \<Longrightarrow> is_str b \<Longrightarrow> same_value a b \<longleftrightarrow> str_key a = str_key b"
  by (cases a; cases b) (auto simp: same_value_def)

lemma same_value_num:
  "\<not> is_str a \<Longrightarrow> \<not> is_str b \<Longrightarrow> a \<noteq> NaN \<Longrightarrow> b \<noteq> NaN \<Longrightarrow> same_value a b \<longleftrightarrow> num_key a = num_key b"
  by (cases a; cases b) (auto simp: same_value_def)

lemma py_lt_str: "is_str a \<Longrightarrow> is_str b \<Longrightarrow> py_lt a b \<longleftrightarrow> str_key a < str_key b"
  by (cases a; cases b) auto

lemma py_lt_num: "\<not> is_str a \<Longrightarrow> \<not> is_str b \<Longrightarrow> py_lt a b \<longleftrightarrow> num_key a < num_key b"
  by (cases a; cases b) auto

lemma py_sorted_unique:
  assumes "(py_sorted (py_unique vs) :: 'i error + cell list) = Inr V" and "NaN \<notin> set vs"
  shows "sorted_wrt py_lt V \<and> set V = set (py_unique vs)"
proof -
  let ?U = "py_unique vs"
  have nn: "NaN \<notin> set ?U" using assms(2) set_py_unique [of vs] by auto
  consider (str) "list_all is_str ?U" "V = sort_key str_key ?U"
    | (num) "list_all (\<lambda>v. \<not> is_str v) ?U" "V = sort_key num_key ?U"
    using assms(1) by (auto simp: py_sorted_def split: if_splits)
  then show ?thesis
  proof cases
    case str
    have "sorted_wrt (\<lambda>a b. str_key a \<noteq> str_key b) ?U"
      by (rule sorted_wrt_mono_rel [OF _ py_unique_pairwise])
         (use str(1) in \<open>auto simp: list_all_iff same_value_str\<close>)
    then have "distinct (map str_key ?U)" by (rule pairwise_distinct_keys)
    then have k: "sorted_wrt (\<lambda>a b. str_key a < str_key b) V"
      unfolding str(2) by (rule strict_sorted_key)
    have "sorted_wrt py_lt V"
      by (rule sorted_wrt_mono_rel [OF _ k])
         (use str in \<open>auto simp: list_all_iff py_lt_str\<close>)
    with str show ?thesis by simp
  next
    case num
    have "num_key x \<noteq> num_key y"
      if "x \<in> set ?U" "y \<in> set ?U" "\<not> same_value x y" for x y
    proof -
      from that num(1) have "\<not> is_str x" "\<not> is_str y" by (auto simp: list_all_iff)
      moreover from that nn have "x \<noteq> NaN" "y \<noteq> NaN" by auto
      ultimately show ?thesis using that(3) by (simp add: same_value_num)
    qed
    then have "sorted_wrt (\<lambda>a b. num_key a \<noteq> num_key b) ?U"
      by (rule sorted_wrt_mono_rel [OF _ py_unique_pairwise])
    then have "distinct (map num_key ?U)" by (rule pairwise_distinct_keys)
    then have k: "sorted_wrt (\<lambda>a b. num_key a < num_key b) V"
      unfolding num(2) by (rule strict_sorted_key)
    have "sorted_wrt py_lt V"
      by (rule sorted_wrt_mono_rel [OF _ k])
         (use num in \<open>auto simp: list_all_iff py_lt_num\<close>)
    with num show ?thesis by simp
  qed
qed

subsection \<open>The table that transform returns\<close>

lemma transform_no_nan:
  fixes w :: "'i world"
  assumes "transform X w = (Inr Y, w')"
  shows "\<not> any_na (heap w' ! Y)"
  using transform_Inr [OF assms] by auto

lemma any_na_iff: "any_na f \<longleftrightarrow> (\<exists>(c, s)\<in>set (columns f). NaN \<in> set (cells s))"
  by (force simp: any_na_def list_ex_iff)

subsection \<open>The columns after each stage\<close>

lemma cast_map:
  fixes w :: "'i world"
  assumes "cast_types X w = (Inr Y, w')" and "X < length (heap w)"
  shows "\<exists>s. map_of (columns (heap w ! X)) ''MSSubClass'' = Some s \<and>
     index (heap w' ! X) = index (heap w ! X) \<and>
     map_of (columns (heap w' ! X)) = (map_of (columns (heap w ! X)))(''MSSubClass'' \<mapsto> astype_category s)"
  using assms
  by (auto simp: cast_types_eq df_setitem_def map_of_set_col split: option.splits)

lemma fillna_map:
  fixes w :: "'i world"
  assumes "fillna X w = (Inr Y, w')" and "X < length (heap w)"
  shows "index (heap w' ! X) = index (heap w ! X) \<and>
     map_of (columns (heap w' ! X)) =
       fill_map (Num 0) cols_fillna_0 (fill_map (Str ''None'') cols_fillna_None_str (map_of (columns (heap w ! X))))"
proof -
  let ?f = "heap w ! X"
  from assms(1) obtain g g' where g: "df_getitem_list ?f cols_fillna_None_str = Inr g"
    and g': "(df_fillna (Str ''None'') g :: 'i error + 'i frame) = Inr g'"
    by (auto simp: fillna_eq Let_def split: sum.splits)
  let ?f1 = "df_setitem_list ?f cols_fillna_None_str g'"
  let ?w1 = "w\<lparr>heap := (heap w)[X := ?f1]\<rparr>"
  have f1: "heap ?w1 ! X = ?f1" using assms(2) by simp
  from assms g g' obtain h h' where h: "df_getitem_list ?f1 cols_fillna_0 = Inr h"
    and h': "(df_fillna (Num 0) h :: 'i error + 'i frame) = Inr h'"
    and w': "w' = ?w1\<lparr>heap := (heap ?w1)[X := df_setitem_list ?f1 cols_fillna_0 h']\<rparr>"
    by (auto simp: fillna_eq Let_def f1 split: sum.splits)
  from w' assms(2) have out: "heap w' ! X = df_setitem_list ?f1 cols_fillna_0 h'"
    by simp
  have m1: "map_of (columns ?f1) = fill_map (Str ''None'') cols_fillna_None_str (map_of (columns ?f))"
    unfolding fill_map_def by (rule fill_step(2) [OF g g'])
  have m2: "map_of (columns (df_setitem_list ?f1 cols_fillna_0 h')) = fill_map (Num 0) cols_fillna_0 (map_of (columns ?f1))"
    unfolding fill_map_def by (rule fill_step(2) [OF h h'])
  have "index (df_setitem_list ?f1 cols_fillna_0 h') = index ?f"
    by (simp add: fill_step(1) [OF h h'] fill_step(1) [OF g g'])
  then show ?thesis
    unfolding out m2 m1 by simp
qed

lemma drop_map:
  fixes w :: "'i world"
  assumes "drop_columns X w = (Inr Y, w')"
  shows "heap w' ! Y = without (heap w ! X) cols_drop"
  using assms
  by (auto simp: drop_columns_eq split: sum.splits dest!: df_drop_Inr)

lemma date_map:
  fixes w :: "'i world"
  assumes "transform_date_sold X w = (Inr Y, w')" and "X < length (heap w)"
  shows "\<exists>s. heap w' ! Y = without (df_setitem (heap w ! X) ''MonthNumSold'' s) [''MoSold'', ''YrSold'']"
  using date_Inr [OF assms] by (auto dest!: df_drop_Inr)

lemma binarize_map:
  fixes w :: "'i world"
  assumes "binarize_features X w = (Inr Y, w')" and "X < length (heap w)"
  shows "\<exists>F t1 t2 t3 t4 t5 t6 t7.
     heap w' ! Y = without F [''Condition2'', ''RoofMatl'', ''Heating'', ''LowQualFinSF'', ''3SsnPorch'', ''PoolArea'', ''MiscVal''] \<and>
     index F = index (heap w ! X) \<and>
     map_of (columns F) = (map_of (columns (heap w ! X)))
        (''Condition2_is_Norm'' \<mapsto> t1, ''RoofMatl_is_CompShg'' \<mapsto> t2, ''Heating_is_GasA'' \<mapsto> t3,
         ''LowQualFinSF_not_0'' \<mapsto> t4, ''3SsnPorch_not_0'' \<mapsto> t5, ''PoolArea_not_0'' \<mapsto> t6,
         ''MiscVal_not_0'' \<mapsto> t7)"
proof -
  from binarize_Inr [OF assms] obtain s1 s2 s3 s4 s5 s6 s7 where
    i: "index (heap w' ! X) = index (heap w ! X)" and
    m: "map_of (columns (heap w' ! X)) = (map_of (columns (heap w ! X)))
        (''Condition2_is_Norm'' \<mapsto> eq_scalar s1 (Str ''Norm''),
         ''RoofMatl_is_CompShg'' \<mapsto> eq_scalar s2 (Str ''CompShg''),
         ''Heating_is_GasA'' \<mapsto> eq_scalar s3 (Str ''GasA''),
         ''LowQualFinSF_not_0'' \<mapsto> ne_scalar s4 (Num 0),
         ''3SsnPorch_not_0'' \<mapsto> ne_scalar s5 (Num 0),
         ''PoolArea_not_0'' \<mapsto> ne_scalar s6 (Num 0),
         ''MiscVal_not_0'' \<mapsto> ne_scalar s7 (Num 0))" and
    d: "df_drop (heap w' ! X) [''Condition2'', ''RoofMatl'', ''Heating'', ''LowQualFinSF'', ''3SsnPorch'', ''PoolArea'', ''MiscVal''] = Inr (heap w' ! Y)"
    by blast
  from df_drop_Inr [OF d] have "heap w' ! Y = without (heap w' ! X) [''Condition2'', ''RoofMatl'', ''Heating'', ''LowQualFinSF'', ''3SsnPorch'', ''PoolArea'', ''MiscVal'']"
    by simp
  with i m show ?thesis by blast
qed

lemma index_df_setitem [simp]: "index (df_setitem f c s) = index f"
  by (simp add: df_setitem_def)

lemma map_of_df_setitem: "map_of (columns (df_setitem f c s)) = (map_of (columns f))(c \<mapsto> s)"
  by (simp add: df_setitem_def map_of_set_col)

lemma transform_columns:
  fixes w :: "'i world"
  assumes "transform X w = (Inr Y, w')"
  shows "\<exists>s d t1 t2 t3 t4 t5 t6 t7.
     map_of (columns (heap w ! X)) ''MSSubClass'' = Some s \<and>
     index (heap w' ! Y) = index (heap w ! X) \<and>
     map_of (columns (heap w' ! Y)) =
       ((((fill_map (Num 0) cols_fillna_0 (fill_map (Str ''None'') cols_fillna_None_str
             ((map_of (columns (heap w ! X)))(''MSSubClass'' \<mapsto> astype_category s)))
           |` (- set cols_drop))(''MonthNumSold'' \<mapsto> d))
           |` (- set [''MoSold'', ''YrSold'']))
          (''Condition2_is_Norm'' \<mapsto> t1, ''RoofMatl_is_CompShg'' \<mapsto> t2, ''Heating_is_GasA'' \<mapsto> t3,
           ''LowQualFinSF_not_0'' \<mapsto> t4, ''3SsnPorch_not_0'' \<mapsto> t5, ''PoolArea_not_0'' \<mapsto> t6,
           ''MiscVal_not_0'' \<mapsto> t7))
        |` (- set [''Condition2'', ''RoofMatl'', ''Heating'', ''LowQualFinSF'', ''3SsnPorch'', ''PoolArea'', ''MiscVal''])"
proof -
  let ?n = "length (heap w)"
  from transform_Inr [OF assms] obtain w1 w2 w3 w4 w5 X4 X5 where
    X: "X4 = Suc ?n" "X5 = Suc X4" "Y = Suc X5" and
    w1: "w1 = w\<lparr>heap := heap w @ [heap w ! X]\<rparr>" and
    c: "cast_types ?n w1 = (Inr ?n, w2)" and
    f: "fillna ?n w2 = (Inr ?n, w3)" and
    d: "drop_columns ?n w3 = (Inr X4, w4)" and
    t: "transform_date_sold X4 w4 = (Inr X5, w5)" and
    b: "binarize_features X5 w5 = (Inr Y, w')" and
    l: "length (heap w2) = Suc ?n" "length (heap w3) = Suc ?n" "length (heap w4) = Suc X4"
       "length (heap w5) = Suc X5"
    by blast
  have f1: "heap w1 ! ?n = heap w ! X" and l1: "?n < length (heap w1)"
    by (simp_all add: w1)
  from cast_map [OF c l1] f1 obtain s where
    s: "map_of (columns (heap w ! X)) ''MSSubClass'' = Some s" and
    i2: "index (heap w2 ! ?n) = index (heap w ! X)" and
    m2: "map_of (columns (heap w2 ! ?n)) = (map_of (columns (heap w ! X)))(''MSSubClass'' \<mapsto> astype_category s)"
    by auto
  from fillna_map [OF f] l have
    i3: "index (heap w3 ! ?n) = index (heap w2 ! ?n)" and
    m3: "map_of (columns (heap w3 ! ?n)) =
       fill_map (Num 0) cols_fillna_0 (fill_map (Str ''None'') cols_fillna_None_str (map_of (columns (heap w2 ! ?n))))"
    by auto
  have f4: "heap w4 ! X4 = without (heap w3 ! ?n) cols_drop"
    by (rule drop_map [OF d])
  from date_map [OF t] l obtain dd where
    f5: "heap w5 ! X5 = without (df_setitem (heap w4 ! X4) ''MonthNumSold'' dd) [''MoSold'', ''YrSold'']"
    by auto
  from binarize_map [OF b] l obtain F t1 t2 t3 t4 t5 t6 t7 where
    f6: "heap w' ! Y = without F [''Condition2'', ''RoofMatl'', ''Heating'', ''LowQualFinSF'', ''3SsnPorch'', ''PoolArea'', ''MiscVal'']" and
    i6: "index F = index (heap w5 ! X5)" and
    m6: "map_of (columns F) = (map_of (columns (heap w5 ! X5)))
        (''Condition2_is_Norm'' \<mapsto> t1, ''RoofMatl_is_CompShg'' \<mapsto> t2, ''Heating_is_GasA'' \<mapsto> t3,
         ''LowQualFinSF_not_0'' \<mapsto> t4, ''3SsnPorch_not_0'' \<mapsto> t5, ''PoolArea_not_0'' \<mapsto> t6,
         ''MiscVal_not_0'' \<mapsto> t7)"
    by auto
  have idx: "index (heap w' ! Y) = index (heap w ! X)"
    by (simp add: f6 i6 f5 f4 i3 i2)
  have m: "map_of (columns (heap w' ! Y)) =
       ((((fill_map (Num 0) cols_fillna_0 (fill_map (Str ''None'') cols_fillna_None_str
             ((map_of (columns (heap w ! X)))(''MSSubClass'' \<mapsto> astype_category s)))
           |` (- set cols_drop))(''MonthNumSold'' \<mapsto> dd))
           |` (- set [''MoSold'', ''YrSold'']))
          (''Condition2_is_Norm'' \<mapsto> t1, ''RoofMatl_is_CompShg'' \<mapsto> t2, ''Heating_is_GasA'' \<mapsto> t3,
           ''LowQualFinSF_not_0'' \<mapsto> t4, ''3SsnPorch_not_0'' \<mapsto> t5, ''PoolArea_not_0'' \<mapsto> t6,
           ''MiscVal_not_0'' \<mapsto> t7))
        |` (- set [''Condition2'', ''RoofMatl'', ''Heating'', ''LowQualFinSF'', ''3SsnPorch'', ''PoolArea'', ''MiscVal''])"
    unfolding f6 map_of_without m6 f5 map_of_df_setitem f4 m3 m2 ..
  from s idx m show ?thesis by blast
qed

subsection \<open>The columns of the table that transform returns, name by name\<close>

lemma created_columns_eq:
  "created_columns = [''MonthNumSold'', ''Condition2_is_Norm'', ''RoofMatl_is_CompShg'', ''Heating_is_GasA'',
      ''LowQualFinSF_not_0'', ''3SsnPorch_not_0'', ''PoolArea_not_0'', ''MiscVal_not_0'']"
  by (simp add: created_columns_def binarize_features_by_true_value_def binarize_features_by_false_value_def
      str_int_def digits.simps digit_char_def)

lemma binarize_sources_eq:
  "binarize_sources = [''Condition2'', ''RoofMatl'', ''Heating'', ''LowQualFinSF'', ''3SsnPorch'', ''PoolArea'', ''MiscVal'']"
  by (simp add: binarize_sources_def binarize_features_by_true_value_def binarize_features_by_false_value_def)

lemma drop_not_created: "\<forall>c\<in>set cols_drop. c \<notin> set created_columns"
  by (simp add: cols_drop_def created_columns_eq)

lemma date_not_created: "\<forall>c\<in>set [''MoSold'', ''YrSold'']. c \<notin> set created_columns"
  by (simp add: created_columns_eq)

lemma sources_not_created: "\<forall>c\<in>set created_columns. c \<notin> set binarize_sources"
  by (simp add: binarize_sources_eq created_columns_eq)

lemma upd8_other:
  assumes "c \<notin> set [k1, k2, k3, k4, k5, k6, k7]"
  shows "(m(k1 \<mapsto> t1, k2 \<mapsto> t2, k3 \<mapsto> t3, k4 \<mapsto> t4, k5 \<mapsto> t5, k6 \<mapsto> t6, k7 \<mapsto> t7)) c = m c"
  using assms by simp

lemma transform_shape:
  fixes w :: "'i world"
  assumes "transform X w = (Inr Y, w')"
  shows "\<exists>s d ts. map_of (columns (heap w ! X)) ''MSSubClass'' = Some s \<and>
     index (heap w' ! Y) = index (heap w ! X) \<and>
     (\<forall>c. map_of (columns (heap w' ! Y)) c =
        (if c \<in> set binarize_sources then None
         else if c \<in> set (tl created_columns) then ts c
         else if c \<in> set [''MoSold'', ''YrSold''] then None
         else if c = ''MonthNumSold'' then Some d
         else if c \<in> set cols_drop then None
         else fill_map (Num 0) cols_fillna_0 (fill_map (Str ''None'') cols_fillna_None_str
             ((map_of (columns (heap w ! X)))(''MSSubClass'' \<mapsto> astype_category s))) c))"
proof -
  from transform_columns [OF assms] obtain s d t1 t2 t3 t4 t5 t6 t7 where
    s: "map_of (columns (heap w ! X)) ''MSSubClass'' = Some s"
    and i: "index (heap w' ! Y) = index (heap w ! X)"
    and m: "map_of (columns (heap w' ! Y)) =
       ((((fill_map (Num 0) cols_fillna_0 (fill_map (Str ''None'') cols_fillna_None_str
             ((map_of (columns (heap w ! X)))(''MSSubClass'' \<mapsto> astype_category s)))
           |` (- set cols_drop))(''MonthNumSold'' \<mapsto> d))
           |` (- set [''MoSold'', ''YrSold'']))
          (''Condition2_is_Norm'' \<mapsto> t1, ''RoofMatl_is_CompShg'' \<mapsto> t2, ''Heating_is_GasA'' \<mapsto> t3,
           ''LowQualFinSF_not_0'' \<mapsto> t4, ''3SsnPorch_not_0'' \<mapsto> t5, ''PoolArea_not_0'' \<mapsto> t6,
           ''MiscVal_not_0'' \<mapsto> t7))
        |` (- set [''Condition2'', ''RoofMatl'', ''Heating'', ''LowQualFinSF'', ''3SsnPorch'', ''PoolArea'', ''MiscVal''])"
    by blast
  let ?M = "fill_map (Num 0) cols_fillna_0 (fill_map (Str ''None'') cols_fillna_None_str
             ((map_of (columns (heap w ! X)))(''MSSubClass'' \<mapsto> astype_category s)))"
  let ?U = "(((?M |` (- set cols_drop))(''MonthNumSold'' \<mapsto> d)) |` (- set [''MoSold'', ''YrSold'']))
          (''Condition2_is_Norm'' \<mapsto> t1, ''RoofMatl_is_CompShg'' \<mapsto> t2, ''Heating_is_GasA'' \<mapsto> t3,
           ''LowQualFinSF_not_0'' \<mapsto> t4, ''3SsnPorch_not_0'' \<mapsto> t5, ''PoolArea_not_0'' \<mapsto> t6,
           ''MiscVal_not_0'' \<mapsto> t7)"
  have tl: "tl created_columns = [''Condition2_is_Norm'', ''RoofMatl_is_CompShg'', ''Heating_is_GasA'',
      ''LowQualFinSF_not_0'', ''3SsnPorch_not_0'', ''PoolArea_not_0'', ''MiscVal_not_0'']"
    by (simp add: created_columns_eq)
  have "\<forall>c. map_of (columns (heap w' ! Y)) c =
        (if c \<in> set binarize_sources then None
         else if c \<in> set (tl created_columns) then ?U c
         else if c \<in> set [''MoSold'', ''YrSold''] then None
         else if c = ''MonthNumSold'' then Some d
         else if c \<in> set cols_drop then None
         else ?M c)"
  proof
    fix c
    show "map_of (columns (heap w' ! Y)) c =
        (if c \<in> set binarize_sources then None
         else if c \<in> set (tl created_columns) then ?U c
         else if c \<in> set [''MoSold'', ''YrSold''] then None
         else if c = ''MonthNumSold'' then Some d
         else if c \<in> set cols_drop then None
         else ?M c)"
    proof (cases "c \<in> set binarize_sources")
      case True
      then show ?thesis unfolding m binarize_sources_eq by (simp only: restrict_map_def if_True if_False Compl_iff not_True_eq_False simp_thms)
    next
      case False
      then have r: "map_of (columns (heap w' ! Y)) c = ?U c"
        unfolding m binarize_sources_eq by (simp only: restrict_map_def if_True if_False Compl_iff simp_thms)
      show ?thesis
      proof (cases "c \<in> set (tl created_columns)")
        case True
        with False r show ?thesis by (simp only: if_True if_False)
      next
        case nt: False
        then have u: "?U c = (((?M |` (- set cols_drop))(''MonthNumSold'' \<mapsto> d)) |` (- set [''MoSold'', ''YrSold''])) c"
          unfolding tl by (rule upd8_other)
        show ?thesis
        proof (cases "c \<in> set [''MoSold'', ''YrSold'']")
          case True
          with False nt show ?thesis unfolding r u by (simp only: restrict_map_def if_True if_False Compl_iff simp_thms)
        next
          case nd: False
          show ?thesis
          proof (cases "c = ''MonthNumSold''")
            case True
            with False nt nd show ?thesis unfolding r u
              by (simp only: restrict_map_def if_True if_False Compl_iff simp_thms fun_upd_same)
          next
            case nm: False
            show ?thesis
            proof (cases "c \<in> set cols_drop")
              case True
              with False nt nd nm show ?thesis unfolding r u
                by (simp only: restrict_map_def if_True if_False Compl_iff simp_thms fun_upd_other)
            next
              case nc: False
              with False nt nd nm show ?thesis unfolding r u
                by (simp only: restrict_map_def if_True if_False Compl_iff simp_thms fun_upd_other)
            qed
          qed
        qed
      qed
    qed
  qed
  with s i show ?thesis by blast
qed

lemma tl_created: "c \<in> set (tl created_columns) \<Longrightarrow> c \<in> set created_columns"
  by (simp add: created_columns_eq)

lemma month_created: "''MonthNumSold'' \<in> set created_columns"
  by (simp add: created_columns_eq)

lemma transform_dropped:
  fixes w :: "'i world"
  assumes "transform X w = (Inr Y, w')"
    and c: "c \<in> set cols_drop \<or> c \<in> set binarize_sources \<or> c \<in> set [''MoSold'', ''YrSold'']"
  shows "map_of (columns (heap w' ! Y)) c = None"
proof -
  from transform_shape [OF assms(1)] obtain s d ts where
    sh: "map_of (columns (heap w' ! Y)) c =
        (if c \<in> set binarize_sources then None
         else if c \<in> set (tl created_columns) then ts c
         else if c \<in> set [''MoSold'', ''YrSold''] then None
         else if c = ''MonthNumSold'' then Some d
         else if c \<in> set cols_drop then None
         else fill_map (Num 0) cols_fillna_0 (fill_map (Str ''None'') cols_fillna_None_str
             ((map_of (columns (heap w ! X)))(''MSSubClass'' \<mapsto> astype_category s))) c)"
    by blast
  show ?thesis
  proof (cases "c \<in> set binarize_sources")
    case True
    then show ?thesis unfolding sh by (simp only: if_True)
  next
    case ns: False
    with c have cd: "c \<in> set cols_drop \<or> c \<in> set [''MoSold'', ''YrSold'']"
      by (simp only: simp_thms)
    then have "c \<notin> set created_columns"
      using drop_not_created date_not_created by (meson)
    then have nc: "c \<notin> set (tl created_columns)" and nm: "c \<noteq> ''MonthNumSold''"
      using tl_created month_created by (meson)+
    show ?thesis
    proof (cases "c \<in> set [''MoSold'', ''YrSold'']")
      case True
      with ns nc show ?thesis unfolding sh by (simp only: if_True if_False)
    next
      case False
      with cd have "c \<in> set cols_drop" by (simp only: simp_thms)
      with False ns nc nm show ?thesis unfolding sh by (simp only: if_True if_False)
    qed
  qed
qed

lemma named_columns_split:
  "c \<notin> set named_columns \<longleftrightarrow>
     c \<noteq> ''MSSubClass'' \<and> c \<notin> set cols_fillna_None_str \<and> c \<notin> set cols_fillna_0 \<and>
     c \<notin> set cols_drop \<and> c \<notin> set [''MoSold'', ''YrSold''] \<and> c \<notin> set binarize_sources"
  unfolding named_columns_def binarize_sources_def cols_cast_category_def
  by (simp only: set_append Un_iff de_Morgan_disj conj_assoc list.set insert_iff empty_iff simp_thms)

lemma transform_passes:
  fixes w :: "'i world"
  assumes "transform X w = (Inr Y, w')"
    and "c \<notin> set named_columns" and "c \<notin> set created_columns"
  shows "map_of (columns (heap w' ! Y)) c = map_of (columns (heap w ! X)) c"
proof -
  from transform_shape [OF assms(1)] obtain s d ts where
    sh: "map_of (columns (heap w' ! Y)) c =
        (if c \<in> set binarize_sources then None
         else if c \<in> set (tl created_columns) then ts c
         else if c \<in> set [''MoSold'', ''YrSold''] then None
         else if c = ''MonthNumSold'' then Some d
         else if c \<in> set cols_drop then None
         else fill_map (Num 0) cols_fillna_0 (fill_map (Str ''None'') cols_fillna_None_str
             ((map_of (columns (heap w ! X)))(''MSSubClass'' \<mapsto> astype_category s))) c)"
    by blast
  from assms(2) have n: "c \<noteq> ''MSSubClass''" "c \<notin> set cols_fillna_None_str" "c \<notin> set cols_fillna_0"
     "c \<notin> set cols_drop" "c \<notin> set [''MoSold'', ''YrSold'']" "c \<notin> set binarize_sources"
    unfolding named_columns_split by (simp_all only: simp_thms)
  from assms(3) have nc: "c \<notin> set (tl created_columns)" and nm: "c \<noteq> ''MonthNumSold''"
    using tl_created month_created by (meson)+
  from n nc nm show ?thesis
    unfolding sh fill_map_def by (simp only: if_False fun_upd_other simp_thms)
qed

lemma transform_index:
  fixes w :: "'i world"
  assumes "transform X w = (Inr Y, w')"
  shows "index (heap w' ! Y) = index (heap w ! X)"
  using transform_shape [OF assms] by blast

subsection \<open>The example tables, run\<close>

lemma heldout_run:
  "(case transform 1 world0 of (r, w) \<Rightarrow> r = Inr 5 \<and> heap w ! 5 = heldout_out)"
  by code_simp

lemma train_run:
  "(case fit_transform 0 world0 of (r, w) \<Rightarrow>
      r = Inr 5 \<and> num_cols w = train_num_cols \<and> cat_cols w = train_cat_cols \<and>
      all_categories w = train_vocab \<and> heap w ! 1 = heldout_table)"
  by code_simp

lemma later_run:
  "(case fit_transform 0 world0 of (r, w) \<Rightarrow>
      (case transform 1 w of (r2, w2) \<Rightarrow> r2 = Inr 9 \<and> heap w2 ! 9 = heldout_out))"
  by code_simp

lemma gap_run:
  "(case transform 0 gap_world of (r, w) \<Rightarrow>
      r = Inl (NaNsPresent [3] [''Neighborhood'']) \<and> length (heap w) = 5)"
  by code_simp

lemma heldout_names: "distinct (map fst (columns heldout_table))"
  by code_simp

section \<open>Binarization\<close>







section \<open>What transform leaves alone\<close>

text \<open>
  C8. Whatever \<open>transform(X)\<close> does, returning a table or raising, the table \<open>X\<close> is
  afterwards what it was before, and so is every other table that existed before the
  call: \<open>transform\<close> writes only to the copy it takes first and to the tables it makes
  from it. The three fields \<open>_num_cols\<close>, \<open>_cat_cols\<close> and \<open>_all_categories\<close> of the
  instance are unchanged as well.
\<close>

theorem transform_leaves_input_and_metadata:
  fixes w :: "'i world"
  assumes "X < length (heap w)" and "transform X w = (r, w')"
  shows "heap w' ! X = heap w ! X \<and>
         (\<forall>a < length (heap w). heap w' ! a = heap w ! a) \<and>
         num_cols w' = num_cols w \<and> cat_cols w' = cat_cols w \<and>
         all_categories w' = all_categories w"
proof -
  from transform_frame [OF assms(2)] have p: "preserves (length (heap w)) w w'"
    by simp
  then have t: "take (length (heap w)) (heap w') = heap w"
    by (simp add: preserves_def)
  have "heap w' ! a = heap w ! a" if "a < length (heap w)" for a
  proof -
    have "take (length (heap w)) (heap w') ! a = heap w' ! a"
      using that by simp
    then show ?thesis using t by simp
  qed
  with assms(1) p show ?thesis
    by (simp add: preserves_def)
qed

theorem transform_leaves_input_and_metadata_witness:
  "(1::nat) < length (heap world0) \<and>
   fst (transform 1 world0) = Inr 5 \<and>
   heap (snd (transform 1 world0)) ! 1 = heldout_table \<and>
   heap (snd (transform 1 world0)) ! 0 = train_table \<and>
   num_cols (snd (transform 1 world0)) = [] \<and>
   cat_cols (snd (transform 1 world0)) = [] \<and>
   all_categories (snd (transform 1 world0)) = []"
proof -
  have h: "(1::nat) < length (heap world0)"
    by (simp add: world0_def)
  have t: "transform 1 world0 = (fst (transform 1 world0), snd (transform 1 world0))"
    by simp
  have r: "fst (transform 1 world0) = Inr 5"
    using heldout_run by (simp split: prod.splits)
  from transform_leaves_input_and_metadata [OF h t] r h show ?thesis
    by (simp add: world0_def)
qed

section \<open>fit_transform and transform\<close>




section \<open>The learned feature roles\<close>

text \<open>
  C4. After \<open>fit_transform(X)\<close> has returned, \<open>_num_cols\<close> lists the columns of the
  returned table whose dtype is a number dtype, in the table's order, \<open>_cat_cols\<close> lists
  the other columns in the table's order, and \<open>_all_categories\<close> has one entry for every
  name of \<open>_cat_cols\<close>, at the same position: a list in strictly increasing order (by
  Python's \<open><\<close>) of values of that column, in which every value of the column occurs
  (up to Python's \<open>==\<close>).
\<close>

theorem fit_transform_learns_roles:
  fixes w :: "'i world"
  assumes "fit_transform X w = (Inr Y, w')"
  shows "num_cols w' = map fst (filter (\<lambda>(c, s). dtype s = Int64 \<or> dtype s = Float64) (columns (heap w' ! Y))) \<and>
         cat_cols w' = map fst (filter (\<lambda>(c, s). \<not> (dtype s = Int64 \<or> dtype s = Float64)) (columns (heap w' ! Y))) \<and>
         length (all_categories w') = length (cat_cols w') \<and>
         (\<forall>i < length (cat_cols w'). \<exists>s.
            map_of (columns (heap w' ! Y)) (cat_cols w' ! i) = Some s \<and>
            sorted_wrt py_lt (all_categories w' ! i) \<and>
            set (all_categories w' ! i) \<subseteq> set (cells s) \<and>
            (\<forall>v\<in>set (cells s). \<exists>u\<in>set (all_categories w' ! i). py_eq u v))"
proof -
  from fit_transform_Inr [OF assms] obtain w1 cats where t: "transform X w = (Inr Y, w1)"
    and w': "w' = w1\<lparr>num_cols := select_dtypes_include_number (heap w1 ! Y),
              cat_cols := select_dtypes_exclude_number (heap w1 ! Y),
              all_categories := cats\<rparr>"
    and cats: "map Inr cats = map (\<lambda>c. (py_sorted (py_unique (cells (the (map_of (columns (heap w1 ! Y)) c)))) :: 'i error + cell list))
         (select_dtypes_exclude_number (heap w1 ! Y))"
    by blast
  let ?f = "heap w1 ! Y"
  let ?cs = "select_dtypes_exclude_number ?f"
  have f: "heap w' ! Y = ?f" by (simp add: w')
  have nn: "\<not> any_na ?f" by (rule transform_no_nan [OF t])
  have n: "num_cols w' = map fst (filter (\<lambda>(c, s). dtype s = Int64 \<or> dtype s = Float64) (columns ?f))"
    by (simp add: w' select_dtypes_include_number_def is_number_def case_prod_unfold)
  have c: "cat_cols w' = map fst (filter (\<lambda>(c, s). \<not> (dtype s = Int64 \<or> dtype s = Float64)) (columns ?f))"
    by (simp add: w' select_dtypes_exclude_number_def is_number_def case_prod_unfold)
  from cats have len: "length cats = length ?cs"
    by (metis length_map)
  have vocab: "\<exists>s. map_of (columns ?f) (?cs ! i) = Some s \<and>
            sorted_wrt py_lt (cats ! i) \<and> set (cats ! i) \<subseteq> set (cells s) \<and>
            (\<forall>v\<in>set (cells s). \<exists>u\<in>set (cats ! i). py_eq u v)" if i: "i < length ?cs" for i
  proof -
    from i have "?cs ! i \<in> set ?cs" by simp
    from exclude_number_present [OF this] obtain s where s: "map_of (columns ?f) (?cs ! i) = Some s"
      by auto
    then have "(?cs ! i, s) \<in> set (columns ?f)" by (rule map_of_SomeD)
    with nn have nan: "NaN \<notin> set (cells s)" by (auto simp: any_na_iff)
    from cats i len have "map Inr cats ! i = (py_sorted (py_unique (cells (the (map_of (columns ?f) (?cs ! i))))) :: 'i error + cell list)"
      by simp
    with i len s have srt: "(py_sorted (py_unique (cells s)) :: 'i error + cell list) = Inr (cats ! i)"
      by simp
    from py_sorted_unique [OF srt nan] have a: "sorted_wrt py_lt (cats ! i)" and b: "set (cats ! i) = set (py_unique (cells s))"
      by auto
    have "\<exists>u\<in>set (cats ! i). py_eq u v" if v: "v \<in> set (cells s)" for v
    proof -
      from py_unique_covers [OF v] obtain u where u: "u \<in> set (py_unique (cells s))" "same_value u v"
        by auto
      from v nan have "v \<noteq> NaN" by auto
      with u(2) have "py_eq u v" by (simp add: same_value_def)
      with u(1) b show ?thesis by auto
    qed
    with s a b set_py_unique [of "cells s"] show ?thesis by auto
  qed
  show ?thesis
    unfolding f using n c len vocab by (simp add: w')
qed

theorem fit_transform_learns_roles_witness:
  "fst (fit_transform 0 world0) = Inr 5 \<and>
   num_cols (snd (fit_transform 0 world0)) = train_num_cols \<and>
   cat_cols (snd (fit_transform 0 world0)) ! 1 = ''Neighborhood'' \<and>
   all_categories (snd (fit_transform 0 world0)) ! 1 = [Str ''A'', Str ''B''] \<and>
   length (all_categories (snd (fit_transform 0 world0))) = length (cat_cols (snd (fit_transform 0 world0))) \<and>
   sorted_wrt py_lt (all_categories (snd (fit_transform 0 world0)) ! 1)"
proof -
  let ?w = "snd (fit_transform 0 world0)"
  have r: "fst (fit_transform 0 world0) = Inr 5" and n: "num_cols ?w = train_num_cols"
    and c: "cat_cols ?w = train_cat_cols" and v: "all_categories ?w = train_vocab"
    using train_run by (simp_all split: prod.splits)
  from r have run: "fit_transform 0 world0 = (Inr 5, ?w)"
    by (metis prod.collapse)
  have i: "1 < length (cat_cols ?w)"
    by (simp add: c train_cat_cols_def)
  from fit_transform_learns_roles [OF run] i
  have "length (all_categories ?w) = length (cat_cols ?w)" "sorted_wrt py_lt (all_categories ?w ! 1)"
    by blast+
  moreover have "cat_cols ?w ! 1 = ''Neighborhood''" "all_categories ?w ! 1 = [Str ''A'', Str ''B'']"
    by (simp_all add: c v train_cat_cols_def train_vocab_def)
  ultimately show ?thesis using r n by simp
qed

section \<open>The columns that transform removes\<close>

text \<open>
  C5. The claim counts eight source columns for the two binarization rule sets. The
  configuration has seven: three rules by true value and four by false value.
\<close>

theorem transform_drops_columns_counterexample:
  "map fst binarize_features_by_true_value = [''Condition2'', ''RoofMatl'', ''Heating''] \<and>
   map fst binarize_features_by_false_value = [''LowQualFinSF'', ''3SsnPorch'', ''PoolArea'', ''MiscVal''] \<and>
   length (map fst binarize_features_by_true_value @ map fst binarize_features_by_false_value) = 7"
  by (simp add: binarize_features_by_true_value_def binarize_features_by_false_value_def)

text \<open>
  C5, amended. A table that \<open>transform\<close> returns has no column named in \<open>cols_drop\<close>,
  which are the six names \<open>1stFlrSF\<close>, \<open>GarageArea\<close>, \<open>GarageYrBlt\<close>, \<open>TotRmsAbvGrd\<close>,
  \<open>Street\<close> and \<open>Utilities\<close>, no column named as the source of a binarization rule, which
  are the seven names \<open>Condition2\<close>, \<open>RoofMatl\<close>, \<open>Heating\<close>, \<open>LowQualFinSF\<close>,
  \<open>3SsnPorch\<close>, \<open>PoolArea\<close> and \<open>MiscVal\<close>, and no column named \<open>MoSold\<close> or \<open>YrSold\<close>.
\<close>

theorem transform_drops_columns:
  fixes w :: "'i world"
  assumes "transform X w = (Inr Y, w')"
  shows "set (map fst (columns (heap w' ! Y))) \<inter>
           (set cols_drop \<union>
            set (map fst binarize_features_by_true_value @ map fst binarize_features_by_false_value) \<union>
            set [''MoSold'', ''YrSold'']) = {} \<and>
         cols_drop = [''1stFlrSF'', ''GarageArea'', ''GarageYrBlt'', ''TotRmsAbvGrd'', ''Street'', ''Utilities''] \<and>
         map fst binarize_features_by_true_value @ map fst binarize_features_by_false_value =
           [''Condition2'', ''RoofMatl'', ''Heating'', ''LowQualFinSF'', ''3SsnPorch'', ''PoolArea'', ''MiscVal'']"
proof -
  let ?out = "columns (heap w' ! Y)"
  let ?gone = "set cols_drop \<union> set binarize_sources \<union> set [''MoSold'', ''YrSold'']"
  have "c \<notin> set (map fst ?out)" if "c \<in> ?gone" for c
  proof -
    from that have "c \<in> set cols_drop \<or> c \<in> set binarize_sources \<or> c \<in> set [''MoSold'', ''YrSold'']"
      by (simp only: Un_iff disj_assoc)
    from transform_dropped [OF assms this] have "map_of ?out c = None" .
    then show ?thesis
      by (simp add: map_of_eq_None_iff)
  qed
  then have "set (map fst ?out) \<inter> ?gone = {}"
    by (meson disjoint_iff)
  moreover have "cols_drop = [''1stFlrSF'', ''GarageArea'', ''GarageYrBlt'', ''TotRmsAbvGrd'', ''Street'', ''Utilities'']"
    by (rule cols_drop_def)
  moreover note binarize_sources_eq
  ultimately show ?thesis
    unfolding binarize_sources_def by (intro conjI)
qed

theorem transform_drops_columns_witness:
  "fst (transform 1 world0) = Inr 5 \<and>
   set (map fst (columns (heap (snd (transform 1 world0)) ! 5))) \<inter>
     (set cols_drop \<union>
      set (map fst binarize_features_by_true_value @ map fst binarize_features_by_false_value) \<union>
      set [''MoSold'', ''YrSold'']) = {}"
proof -
  have r: "fst (transform 1 world0) = Inr 5"
    using heldout_run by (simp split: prod.splits)
  then have t: "transform 1 world0 = (Inr 5, snd (transform 1 world0))"
    by (metis prod.collapse)
  from r transform_drops_columns [OF t, THEN conjunct1] show ?thesis
    by (rule conjI)
qed

section \<open>The columns that transform passes through\<close>

text \<open>
  C7. The claim lets every column pass that no configuration list names. It does not
  hold as stated: the stages write the columns they create, \<open>MonthNumSold\<close> and one
  column for every binarization rule, under names that no configuration list contains,
  and a column of the input that has such a name is overwritten. On the held-out table
  with two more columns named \<open>MonthNumSold\<close> and \<open>PoolArea_not_0\<close>, \<open>transform\<close>
  returns a table in which both hold other values.
\<close>

theorem transform_passes_columns_counterexample:
  "(case transform 0 extra_world of (r, w) \<Rightarrow>
      r = Inr 4 \<and>
      distinct (map fst (columns (heap extra_world ! 0))) \<and>
      ''MonthNumSold'' \<notin> set named_columns \<and> ''PoolArea_not_0'' \<notin> set named_columns \<and>
      map_of (columns (heap extra_world ! 0)) ''MonthNumSold'' = Some (Series Object [Str ''kept'']) \<and>
      map_of (columns (heap extra_world ! 0)) ''PoolArea_not_0'' = Some (Series Object [Str ''kept'']) \<and>
      map_of (columns (heap w ! 4)) ''MonthNumSold'' = Some (Series Int64 [Num 101]) \<and>
      map_of (columns (heap w ! 4)) ''PoolArea_not_0'' = Some (Series BoolT [Bool False]))"
  by code_simp

text \<open>
  C7, amended. When \<open>transform(X)\<close> returns, for a table \<open>X\<close> with unique column names,
  the returned table has the row-ids of \<open>X\<close>, in the same order, and every column of \<open>X\<close>
  whose name is neither named by the configuration (cast, fill, drop, date, binarize)
  nor the name of a column that a stage creates (\<open>MonthNumSold\<close>, \<open>Condition2_is_Norm\<close>,
  \<open>RoofMatl_is_CompShg\<close>, \<open>Heating_is_GasA\<close>, \<open>LowQualFinSF_not_0\<close>, \<open>3SsnPorch_not_0\<close>,
  \<open>PoolArea_not_0\<close>, \<open>MiscVal_not_0\<close>) is a column of the returned table, with the same
  dtype and the same cells.
\<close>

theorem transform_passes_columns:
  fixes w :: "'i world"
  assumes "transform X w = (Inr Y, w')" and "distinct (map fst (columns (heap w ! X)))"
  shows "index (heap w' ! Y) = index (heap w ! X) \<and>
         (\<forall>(c, s) \<in> set (columns (heap w ! X)).
            c \<notin> set named_columns \<and> c \<notin> set created_columns \<longrightarrow>
            (c, s) \<in> set (columns (heap w' ! Y)))"
proof -
  have "(c, s) \<in> set (columns (heap w' ! Y))"
    if "(c, s) \<in> set (columns (heap w ! X))" and "c \<notin> set named_columns" and "c \<notin> set created_columns"
    for c s
  proof -
    from assms(2) that(1) have "map_of (columns (heap w ! X)) c = Some s"
      by (rule map_of_is_SomeI)
    with transform_passes [OF assms(1) that(2) that(3)]
    have "map_of (columns (heap w' ! Y)) c = Some s"
      by (simp only:)
    then show ?thesis by (rule map_of_SomeD)
  qed
  with transform_index [OF assms(1)] show ?thesis
    by blast
qed

theorem transform_passes_columns_witness:
  "fst (transform 1 world0) = Inr 5 \<and>
   distinct (map fst (columns (heap world0 ! 1))) \<and>
   (''Neighborhood'', Series Object [Str ''C'']) \<in> set (columns (heap world0 ! 1)) \<and>
   ''Neighborhood'' \<notin> set named_columns \<and> ''Neighborhood'' \<notin> set created_columns \<and>
   index (heap (snd (transform 1 world0)) ! 5) = [3] \<and>
   (''Neighborhood'', Series Object [Str ''C'']) \<in> set (columns (heap (snd (transform 1 world0)) ! 5))"
proof -
  have r: "fst (transform 1 world0) = Inr 5"
    using heldout_run by (simp split: prod.splits)
  then have t: "transform 1 world0 = (Inr 5, snd (transform 1 world0))"
    by (metis prod.collapse)
  have h: "heap world0 ! 1 = heldout_table"
    by (simp add: world0_def)
  have d: "distinct (map fst (columns (heap world0 ! 1)))"
    unfolding h by (rule heldout_names)
  have i: "(''Neighborhood'', Series Object [Str ''C'']) \<in> set (columns (heap world0 ! 1))"
    unfolding h by (simp add: heldout_table_def)
  have x: "index (heap world0 ! 1) = [3]"
    unfolding h by (simp add: heldout_table_def)
  have n: "''Neighborhood'' \<notin> set named_columns"
    by code_simp
  have k: "''Neighborhood'' \<notin> set created_columns"
    by (simp add: created_columns_eq)
  from transform_passes_columns [OF t d] i n k x have
    "index (heap (snd (transform 1 world0)) ! 5) = [3] \<and>
     (''Neighborhood'', Series Object [Str ''C'']) \<in> set (columns (heap (snd (transform 1 world0)) ! 5))"
    by (simp only:) blast
  with r d i n k show ?thesis
    by (simp only: simp_thms)
qed

section \<open>No missing cell in a returned table\<close>

text \<open>
  C1. The claim gives \<open>transform\<close> two outcomes on a table that has the expected
  columns: a table with no missing cell, or the error of \<open>_validate_no_nans\<close>. It does
  not hold as stated, since a stage before the validation can raise. On the held-out
  table with a missing \<open>MoSold\<close>, which has every column that the configuration names,
  the month is written \<open>nan\<close> and \<open>to_datetime\<close> raises a \<open>ValueError\<close> on \<open>nan/2008\<close>,
  whose message lists neither row-ids nor column names.
\<close>

theorem transform_complete_counterexample:
  "list_all (\<lambda>c. c \<in> set (map fst (columns (heap no_month_world ! 0)))) named_columns \<and>
   distinct (map fst (columns (heap no_month_world ! 0))) \<and>
   fst (transform 0 no_month_world) = Inl (ValueError ''nan/2008'')"
  by code_simp

text \<open>
  C1, amended. \<open>transform(X)\<close> never returns a table with a missing cell: when it
  returns, no column of the returned table has a missing cell. When it raises the
  error of \<open>_validate_no_nans\<close>, the table examined, which is the last one made, has a
  missing cell, and the two lists of the message are the row-ids of its rows with a
  missing cell and the names of its columns with a missing cell. Other errors, raised
  by the stages before the validation, are possible.
\<close>

theorem transform_complete:
  fixes w :: "'i world"
  assumes "transform X w = (r, w')"
  shows "(\<forall>Y. r = Inr Y \<longrightarrow>
            \<not> any_na (heap w' ! Y) \<and>
            (\<forall>(c, s) \<in> set (columns (heap w' ! Y)). NaN \<notin> set (cells s))) \<and>
         (\<forall>ids cs. r = Inl (NaNsPresent ids cs) \<longrightarrow>
            heap w' \<noteq> [] \<and> any_na (last (heap w')) \<and>
            ids = na_rows (last (heap w')) \<and> cs = na_cols (last (heap w')))"
proof (intro conjI allI impI)
  fix Y assume "r = Inr Y"
  with assms have "transform X w = (Inr Y, w')" by simp
  then show "\<not> any_na (heap w' ! Y)" by (rule transform_no_nan)
  then show "\<forall>(c, s) \<in> set (columns (heap w' ! Y)). NaN \<notin> set (cells s)"
    unfolding any_na_iff by blast
next
  fix ids cs assume e: "r = Inl (NaNsPresent ids cs)"
  from transform_frame [OF assms] have "reported w' r" by simp
  with e show "heap w' \<noteq> []" "any_na (last (heap w'))"
    "ids = na_rows (last (heap w'))" "cs = na_cols (last (heap w'))"
    unfolding reported_def by blast+
qed

theorem transform_complete_witness:
  "fst (transform 1 world0) = Inr 5 \<and>
   \<not> any_na (heap (snd (transform 1 world0)) ! 5) \<and>
   fst (transform 0 gap_world) = Inl (NaNsPresent [3] [''Neighborhood'']) \<and>
   heap (snd (transform 0 gap_world)) \<noteq> [] \<and>
   any_na (last (heap (snd (transform 0 gap_world)))) \<and>
   na_rows (last (heap (snd (transform 0 gap_world)))) = [3] \<and>
   na_cols (last (heap (snd (transform 0 gap_world)))) = [''Neighborhood'']"
proof -
  have r: "fst (transform 1 world0) = Inr 5"
    using heldout_run by (simp split: prod.splits)
  then have t: "transform 1 world0 = (Inr 5, snd (transform 1 world0))"
    by (metis prod.collapse)
  have g: "fst (transform 0 gap_world) = Inl (NaNsPresent [3] [''Neighborhood''])"
    using gap_run by (simp split: prod.splits)
  then have u: "transform 0 gap_world = (Inl (NaNsPresent [3] [''Neighborhood'']), snd (transform 0 gap_world))"
    by (metis prod.collapse)
  from transform_complete [OF t] have a: "\<not> any_na (heap (snd (transform 1 world0)) ! 5)"
    by blast
  from transform_complete [OF u] have
    "heap (snd (transform 0 gap_world)) \<noteq> [] \<and>
     any_na (last (heap (snd (transform 0 gap_world)))) \<and>
     [3] = na_rows (last (heap (snd (transform 0 gap_world)))) \<and>
     [''Neighborhood''] = na_cols (last (heap (snd (transform 0 gap_world))))"
    by blast
  with r g a show ?thesis
    by (simp only: simp_thms)
qed

end
